theory Spec2Isabelle
  imports Main
begin

section \<open>Values, dictionaries and message constants\<close>

text \<open>
  A date is a \<^verbatim>\<open>datetime.date\<close>, represented by its proleptic Gregorian ordinal
  (\<^verbatim>\<open>date.toordinal()\<close>); the source only compares dates.  A date object is always
  truthy, so \<^verbatim>\<open>end2 and ...\<close> tests \<^verbatim>\<open>end2 is not None\<close>.
\<close>

type_synonym date = int

text \<open>
  The ad hoc result dictionaries of the source are association lists in the
  order the source writes their keys.
\<close>

datatype val = VNone | VBool bool | VInt int | VStr string | VDate date

type_synonym dict = "(string \<times> val) list"

fun truthy :: "val \<Rightarrow> bool" where
  "truthy VNone = False"
| "truthy (VBool b) = b"
| "truthy (VInt n) = (n \<noteq> 0)"
| "truthy (VStr s) = (s \<noteq> [])"
| "truthy (VDate d) = True"

definition get :: "dict \<Rightarrow> string \<Rightarrow> val \<Rightarrow> val" where
  \<comment> \<open>\<^verbatim>\<open>d.get(key, default)\<close>\<close>
  "get d k dflt = (case map_of d k of None \<Rightarrow> dflt | Some v \<Rightarrow> v)"

text \<open>params.py\<close>

definition REDUCE_DATE_MESSAGE :: string where
  "REDUCE_DATE_MESSAGE = ''There are bookings made during the period you have excluded from this date range using this service pool. Do you want to continue?''"

definition REDUCE_CAPACITY_MESSSAGE :: string where
  "REDUCE_CAPACITY_MESSSAGE = ''Bookings already exceed the new capacity limit. Proceed with reducing capacity?''"

definition REDUCED_DATE_CAPACITY_MESSAGE :: string where
  "REDUCED_DATE_CAPACITY_MESSAGE = ''Bookings exceed the new capacity for the excluded dates. Shall we proceed with reducing the date range and capacity?''"

definition PAST_DATE_ERROR :: string where
  "PAST_DATE_ERROR = ''Dates in the past are not allowed''"

definition DATE_VALIDATION :: string where
  "DATE_VALIDATION = ''Start date cannot be after end date''"

definition DATA_INSERT_SUCCESSFUL :: string where
  "DATA_INSERT_SUCCESSFUL = ''Data inserted succesfully.''"

definition UNIQUE_POOL_NAME :: string where
  "UNIQUE_POOL_NAME = ''Pool name must be unique.''"

definition DATA_UPDATE_SUCCESSFUL :: string where
  "DATA_UPDATE_SUCCESSFUL = ''Data updated succesfully.''"

definition POOL_NOT_FOUND :: string where
  "POOL_NOT_FOUND = ''Pool not found.''"


section \<open>Date ranges (schemas.py, models.py)\<close>

text \<open>
  \<^verbatim>\<open>PoolDateRangeCreate\<close> is the request schema; the ORM row \<^verbatim>\<open>PoolDateRange\<close>
  carries the same three attributes plus its bookkeeping columns, so it is the
  extension of the former.  The primary key \<^verbatim>\<open>id\<close> is written \<open>id_pk\<close>.
\<close>

record PoolDateRangeCreate =
  start_date :: date
  end_date :: "date option"
  capacity :: int

record PoolDateRange = PoolDateRangeCreate +
  id_pk :: int
  pool_id :: int
  created_by_id :: int
  updated_by_id :: "int option"
  subscriber_id :: int
  deleted :: int
  record_status :: int

text \<open>
  schemas.py, lines 13--24: the two validators of \<^verbatim>\<open>PoolDateRangeCreate\<close>.  They
  run when a request body is parsed, before a handler is entered, so a handler
  only ever receives ranges that pass both; \<^verbatim>\<open>validate_service_pool_changes\<close>
  itself does not call them.
\<close>

definition check_end_date :: "PoolDateRangeCreate \<Rightarrow> bool" where
  "check_end_date r = (case end_date r of None \<Rightarrow> True | Some e \<Rightarrow> \<not> e < start_date r)"

definition check_capacity_nonneg :: "PoolDateRangeCreate \<Rightarrow> bool" where
  "check_capacity_nonneg r = (\<not> capacity r < 0)"

definition schema_valid :: "PoolDateRangeCreate \<Rightarrow> bool" where
  "schema_valid r = (check_end_date r \<and> check_capacity_nonneg r)"


section \<open>The booking-conflict RPC (crud.py, check\_booking\_available)\<close>

text \<open>
  The payload \<^verbatim>\<open>data\<close> that \<^verbatim>\<open>check_booking_available\<close> sends.  The excluded
  sub-ranges always have two dates; the capacity-only call passes the old end
  date, which may be \<^verbatim>\<open>None\<close>.
\<close>

record booking_query =
  q_pool_id :: int
  q_start_date :: date
  q_end_date :: "date option"
  q_capacity :: int
  q_subscriber_id :: int
  q_capacity_check :: bool

text \<open>
  The remote service is an external collaborator.  It is a parameter: given
  the queries already sent (oldest first) and the current query, it either
  raises (\<open>Inl\<close> with the text of the exception) or answers with the decoded
  JSON object.  Every function below threads the list of queries sent so far,
  which is therefore also the log of remote calls.
\<close>

type_synonym trace = "booking_query list"

type_synonym booking_oracle = "trace \<Rightarrow> booking_query \<Rightarrow> string + dict"

definition booking_data :: "int \<Rightarrow> date \<Rightarrow> date option \<Rightarrow> int \<Rightarrow> int \<Rightarrow> bool \<Rightarrow> booking_query" where
  "booking_data pid sd ed cap sid cc =
     \<lparr>q_pool_id = pid, q_start_date = sd, q_end_date = ed,
      q_capacity = cap, q_subscriber_id = sid, q_capacity_check = cc\<rparr>"

definition check_booking_available ::
  "booking_oracle \<Rightarrow> trace \<Rightarrow> int \<Rightarrow> date \<Rightarrow> date option \<Rightarrow> int \<Rightarrow> int \<Rightarrow> bool
     \<Rightarrow> (string + dict) \<times> trace" where
  "check_booking_available orc tr pid sd ed cap sid cc =
     (let data = booking_data pid sd ed cap sid cc in (orc tr data, tr @ [data]))"


section \<open>Reconciliation (crud.py, validate\_service\_pool\_changes)\<close>

text \<open>
  Lines 556--574: the flag \<^verbatim>\<open>date_range_changed\<close> and the list
  \<^verbatim>\<open>excluded_date_ranges\<close> built for one position.
\<close>

definition start_side :: "date \<Rightarrow> date \<Rightarrow> bool \<times> (date \<times> date) list" where
  "start_side start1 start2 =
     (if start2 \<noteq> start1
      then (True, if start2 < start1 then [(start2, start1)] else [(start1, start2)])
      else (False, []))"

definition end_side :: "date option \<Rightarrow> date option \<Rightarrow> bool \<times> (date \<times> date) list" where
  "end_side end1 end2 =
     (case end1 of
        None \<Rightarrow> (False, [])
      | Some e1 \<Rightarrow>
          (case end2 of
             None \<Rightarrow> (False, [])
           | Some e2 \<Rightarrow>
               if e2 \<noteq> e1
               then (True, if e2 < e1 then [(e2, e1)] else [(e1, e2)])
               else (False, [])))"

definition date_range_changed :: "date \<Rightarrow> date option \<Rightarrow> date \<Rightarrow> date option \<Rightarrow> bool" where
  "date_range_changed start1 end1 start2 end2 =
     (fst (start_side start1 start2) \<or> fst (end_side end1 end2))"

definition excluded_date_ranges ::
  "date \<Rightarrow> date option \<Rightarrow> date \<Rightarrow> date option \<Rightarrow> (date \<times> date) list" where
  "excluded_date_ranges start1 end1 start2 end2 =
     snd (start_side start1 start2) @ snd (end_side end1 end2)"

definition soft_reject :: "string \<Rightarrow> dict" where
  "soft_reject msg = [(''success'', VBool False), (''dialogue'', VBool True), (''message'', VStr msg)]"

definition hard_reject :: "string \<Rightarrow> dict" where
  "hard_reject msg = [(''success'', VBool False), (''dialogue'', VBool False), (''message'', VStr msg)]"

definition accept :: dict where
  "accept = [(''success'', VBool True), (''dialogue'', VBool False)]"

text \<open>
  Lines 578--611: the loop over the excluded sub-ranges.  The result
  \<open>Inr None\<close> means that the loop ended without returning.
\<close>

fun check_excluded ::
  "booking_oracle \<Rightarrow> int \<Rightarrow> int \<Rightarrow> int \<Rightarrow> int \<Rightarrow> (date \<times> date) list \<Rightarrow> trace
     \<Rightarrow> (string + dict option) \<times> trace" where
  "check_excluded orc pid sid old_capacity new_capacity [] tr = (Inr None, tr)"
| "check_excluded orc pid sid old_capacity new_capacity ((excluded_start, excluded_end) # rest) tr =
     (case check_booking_available orc tr pid excluded_start (Some excluded_end)
             old_capacity sid False of
        (Inl e, tr1) \<Rightarrow> (Inl e, tr1)
      | (Inr booking_check, tr1) \<Rightarrow>
          if truthy (get booking_check ''is_booking_exists'' (VBool False))
          then
            (if old_capacity > new_capacity
             then
               (case check_booking_available orc tr1 pid excluded_start (Some excluded_end)
                       new_capacity sid True of
                  (Inl e, tr2) \<Rightarrow> (Inl e, tr2)
                | (Inr capacity_check, tr2) \<Rightarrow>
                    if truthy (get capacity_check ''is_capacity_check'' (VBool False))
                    then (Inr (Some (soft_reject REDUCED_DATE_CAPACITY_MESSAGE)), tr2)
                    else (Inr (Some (soft_reject REDUCE_DATE_MESSAGE)), tr2))
             else (Inr (Some (soft_reject REDUCE_DATE_MESSAGE)), tr1))
          else check_excluded orc pid sid old_capacity new_capacity rest tr1)"

text \<open>Lines 576--611: the excluded periods are queried only when the flag is set.\<close>

definition check_date_change ::
  "booking_oracle \<Rightarrow> int \<Rightarrow> int \<Rightarrow> int \<Rightarrow> int \<Rightarrow> date \<Rightarrow> date option \<Rightarrow> date \<Rightarrow> date option
     \<Rightarrow> trace \<Rightarrow> (string + dict option) \<times> trace" where
  "check_date_change orc pid sid old_capacity new_capacity start1 end1 start2 end2 tr =
     (if date_range_changed start1 end1 start2 end2
      then check_excluded orc pid sid old_capacity new_capacity
             (excluded_date_ranges start1 end1 start2 end2) tr
      else (Inr None, tr))"

text \<open>Lines 613--630: the stand-alone capacity check over the original range.\<close>

definition check_capacity ::
  "booking_oracle \<Rightarrow> int \<Rightarrow> int \<Rightarrow> date \<Rightarrow> date option \<Rightarrow> int \<Rightarrow> trace
     \<Rightarrow> (string + dict option) \<times> trace" where
  "check_capacity orc pid sid start1 end1 new_capacity tr =
     (case check_booking_available orc tr pid start1 end1 new_capacity sid True of
        (Inl e, tr1) \<Rightarrow> (Inl e, tr1)
      | (Inr capacity_check, tr1) \<Rightarrow>
          if truthy (get capacity_check ''is_booking_exists'' (VBool False))
             \<and> truthy (get capacity_check ''is_capacity_check'' (VBool False))
          then (Inr (Some (soft_reject REDUCE_CAPACITY_MESSSAGE)), tr1)
          else (Inr None, tr1))"

text \<open>
  Lines 541--630: the body of the loop for one pair of the zip.  \<open>today\<close> is
  \<^verbatim>\<open>datetime.now().date()\<close>, which the source reads anew at every position; it
  is one value for the whole call here.
\<close>

definition validate_position ::
  "booking_oracle \<Rightarrow> date \<Rightarrow> int \<Rightarrow> int \<Rightarrow> PoolDateRange \<times> PoolDateRangeCreate \<Rightarrow> trace
     \<Rightarrow> (string + dict option) \<times> trace" where
  "validate_position orc today pid sid p tr =
     (let start1 = start_date (fst p); end1 = end_date (fst p);
          start2 = start_date (snd p); end2 = end_date (snd p);
          old_capacity = capacity (fst p); new_capacity = capacity (snd p)
      in
        if (case end2 of None \<Rightarrow> False | Some e2 \<Rightarrow> e2 < today)
        then (Inr (Some (hard_reject PAST_DATE_ERROR)), tr)
        else if (case end2 of None \<Rightarrow> False | Some e2 \<Rightarrow> start2 > e2)
        then (Inr (Some (hard_reject DATE_VALIDATION)), tr)
        else
          (case check_date_change orc pid sid old_capacity new_capacity
                  start1 end1 start2 end2 tr of
             (Inl e, tr1) \<Rightarrow> (Inl e, tr1)
           | (Inr (Some d), tr1) \<Rightarrow> (Inr (Some d), tr1)
           | (Inr None, tr1) \<Rightarrow>
               if old_capacity > new_capacity
               then check_capacity orc pid sid start1 end1 new_capacity tr1
               else (Inr None, tr1)))"

text \<open>Line 540 and line 633: the loop over the zip and the final return.\<close>

fun validate_loop ::
  "booking_oracle \<Rightarrow> date \<Rightarrow> int \<Rightarrow> int \<Rightarrow> (PoolDateRange \<times> PoolDateRangeCreate) list \<Rightarrow> trace
     \<Rightarrow> (string + dict) \<times> trace" where
  "validate_loop orc today pid sid [] tr = (Inr accept, tr)"
| "validate_loop orc today pid sid (p # rest) tr =
     (case validate_position orc today pid sid p tr of
        (Inl e, tr1) \<Rightarrow> (Inl e, tr1)
      | (Inr (Some d), tr1) \<Rightarrow> (Inr d, tr1)
      | (Inr None, tr1) \<Rightarrow> validate_loop orc today pid sid rest tr1)"

definition validate_service_pool_changes ::
  "booking_oracle \<Rightarrow> date \<Rightarrow> PoolDateRange list \<Rightarrow> PoolDateRangeCreate list \<Rightarrow> int \<Rightarrow> int
     \<Rightarrow> (string + dict) \<times> trace" where
  "validate_service_pool_changes orc today existing_ranges date_ranges pid sid =
     validate_loop orc today pid sid (zip existing_ranges date_ranges) []"


section \<open>Persistent state (models.py)\<close>

text \<open>
  The three tables.  Column names shared with \<^verbatim>\<open>PoolDateRange\<close> carry the prefix
  of their table; the timestamp columns, which no function reads, are left out.
\<close>

record Pool =
  pool_pk :: int
  name :: string
  remarks :: "string option"
  pool_created_by_id :: int
  pool_updated_by_id :: "int option"
  pool_subscriber_id :: int
  pool_deleted :: int
  pool_record_status :: int

record PoolDateRangeHistory =
  history_pk :: int
  history_pool_id :: int
  pool_date_range_id :: int
  action_type :: string
  old_start_date :: "date option"
  old_end_date :: "date option"
  old_capacity :: "int option"
  history_created_by_id :: int
  history_subscriber_id :: int

text \<open>
  The session: the rows of each table in insertion order and the next
  auto-increment key of each table.
\<close>

record database =
  pools :: "Pool list"
  pool_date_ranges :: "PoolDateRange list"
  pool_date_range_history :: "PoolDateRangeHistory list"
  next_pool_pk :: int
  next_range_pk :: int
  next_history_pk :: int

text \<open>schemas.py: the request bodies.\<close>

record PoolCreate =
  new_name :: string
  new_remarks :: "string option"
  new_date_ranges :: "PoolDateRangeCreate list"

record PoolUpdate =
  upd_id :: int
  check_date_ranges :: bool
  upd_name :: "string option"
  upd_remarks :: "string option"
  upd_date_ranges :: "PoolDateRangeCreate list option"

datatype exn = IntegrityError | Error string


section \<open>Persistence operations (crud.py)\<close>

definition log_pool_date_range_history ::
  "database \<Rightarrow> int \<Rightarrow> int \<Rightarrow> string \<Rightarrow> date option \<Rightarrow> date option \<Rightarrow> int option \<Rightarrow> int \<Rightarrow> int
     \<Rightarrow> database" where
  "log_pool_date_range_history db pid range_pk action old_start old_end old_cap user_id sid =
     (let history_entry =
            \<lparr>history_pk = next_history_pk db, history_pool_id = pid,
             pool_date_range_id = range_pk, action_type = action,
             old_start_date = old_start, old_end_date = old_end, old_capacity = old_cap,
             history_created_by_id = user_id, history_subscriber_id = sid\<rparr>
      in db\<lparr>pool_date_range_history := pool_date_range_history db @ [history_entry],
             next_history_pk := next_history_pk db + 1\<rparr>)"

text \<open>
  \<^verbatim>\<open>create_pool\<close>: the column \<^verbatim>\<open>name\<close> is declared unique, so the commit raises
  \<^verbatim>\<open>IntegrityError\<close> when a row with that name is already stored.
\<close>

definition create_pool :: "database \<Rightarrow> PoolCreate \<Rightarrow> int \<Rightarrow> int \<Rightarrow> exn + Pool \<times> database" where
  "create_pool db pool user_id sid =
     (let db_pool =
            \<lparr>pool_pk = next_pool_pk db, name = new_name pool, remarks = new_remarks pool,
             pool_created_by_id = user_id, pool_updated_by_id = None,
             pool_subscriber_id = sid, pool_deleted = 0, pool_record_status = 1\<rparr>
      in if list_ex (\<lambda>q. name q = new_name pool) (pools db) then Inl IntegrityError
         else Inr (db_pool, db\<lparr>pools := pools db @ [db_pool], next_pool_pk := next_pool_pk db + 1\<rparr>))"

fun create_pool_date_ranges ::
  "database \<Rightarrow> int \<Rightarrow> PoolDateRangeCreate list \<Rightarrow> int \<Rightarrow> int \<Rightarrow> PoolDateRange list \<times> database" where
  "create_pool_date_ranges db pid [] user_id sid = ([], db)"
| "create_pool_date_ranges db pid (range_data # rest) user_id sid =
     (let db_date_range =
            \<lparr>start_date = start_date range_data, end_date = end_date range_data,
             capacity = capacity range_data, id_pk = next_range_pk db, pool_id = pid,
             created_by_id = user_id, updated_by_id = None, subscriber_id = sid,
             deleted = 0, record_status = 1\<rparr>;
          db1 = db\<lparr>pool_date_ranges := pool_date_ranges db @ [db_date_range],
                    next_range_pk := next_range_pk db + 1\<rparr>;
          db2 = log_pool_date_range_history db1 pid (id_pk db_date_range) ''INSERT''
                  None None None user_id sid;
          r = create_pool_date_ranges db2 pid rest user_id sid
      in (db_date_range # fst r, snd r))"

text \<open>
  \<^verbatim>\<open>update_pool\<close>: \<open>Inr (None, db)\<close> is the return of \<^verbatim>\<open>None\<close>; the commit raises
  \<^verbatim>\<open>IntegrityError\<close> when another row already has the new name.
\<close>

definition update_pool ::
  "database \<Rightarrow> int \<Rightarrow> PoolUpdate \<Rightarrow> int \<Rightarrow> exn + Pool option \<times> database" where
  "update_pool db pid pool_update user_id =
     (case find (\<lambda>p. pool_pk p = pid \<and> pool_deleted p = 0 \<and> pool_record_status p = 1) (pools db) of
        None \<Rightarrow> Inr (None, db)
      | Some db_pool \<Rightarrow>
          (let p1 = (case upd_name pool_update of
                       None \<Rightarrow> db_pool
                     | Some n \<Rightarrow> db_pool\<lparr>name := n, pool_updated_by_id := Some user_id\<rparr>);
               p2 = (case upd_remarks pool_update of
                       None \<Rightarrow> p1
                     | Some r \<Rightarrow> p1\<lparr>remarks := Some r\<rparr>)
           in if list_ex (\<lambda>q. q \<noteq> db_pool \<and> name q = name p2) (pools db) then Inl IntegrityError
              else Inr (Some p2, db\<lparr>pools := map (\<lambda>p. if p = db_pool then p2 else p) (pools db)\<rparr>)))"

text \<open>Lines 156--168 of \<^verbatim>\<open>update_pool_date_ranges\<close>: the old rows go to the history.\<close>

fun log_deleted_ranges :: "database \<Rightarrow> int \<Rightarrow> PoolDateRange list \<Rightarrow> int \<Rightarrow> int \<Rightarrow> int list \<times> database" where
  "log_deleted_ranges db pid [] user_id sid = ([], db)"
| "log_deleted_ranges db pid (old_range # rest) user_id sid =
     (let db1 = log_pool_date_range_history db pid (id_pk old_range) ''DELETE''
                  (Some (start_date old_range)) (end_date old_range) (Some (capacity old_range))
                  user_id sid;
          r = log_deleted_ranges db1 pid rest user_id sid
      in (id_pk old_range # fst r, snd r))"

text \<open>Lines 177--204: the new rows, each logged as an insert.\<close>

fun insert_new_ranges ::
  "database \<Rightarrow> int \<Rightarrow> PoolDateRangeCreate list \<Rightarrow> int \<Rightarrow> int \<Rightarrow> PoolDateRange list \<times> database" where
  "insert_new_ranges db pid [] user_id sid = ([], db)"
| "insert_new_ranges db pid (date_range # rest) user_id sid =
     (let new_date_range =
            \<lparr>start_date = start_date date_range, end_date = end_date date_range,
             capacity = capacity date_range, id_pk = next_range_pk db, pool_id = pid,
             created_by_id = user_id, updated_by_id = Some user_id, subscriber_id = sid,
             deleted = 0, record_status = 1\<rparr>;
          db1 = db\<lparr>pool_date_ranges := pool_date_ranges db @ [new_date_range],
                    next_range_pk := next_range_pk db + 1\<rparr>;
          db2 = log_pool_date_range_history db1 pid (id_pk new_date_range) ''INSERT''
                  None None None user_id sid;
          r = insert_new_ranges db2 pid rest user_id sid
      in (new_date_range # fst r, snd r))"

definition is_active_range_of :: "int \<Rightarrow> PoolDateRange \<Rightarrow> bool" where
  \<comment> \<open>the filter of lines 143--147 and 171--175\<close>
  "is_active_range_of pid r = (pool_id r = pid \<and> deleted r = 0 \<and> record_status r = 1)"

text \<open>Lines 156--207: history, deletion, insertion; returns the two lists.\<close>

definition replace_date_ranges ::
  "database \<Rightarrow> PoolDateRange list \<Rightarrow> int \<Rightarrow> PoolDateRangeCreate list \<Rightarrow> int \<Rightarrow> int
     \<Rightarrow> (int list \<times> PoolDateRange list) \<times> database" where
  "replace_date_ranges db existing_ranges pid date_ranges user_id sid =
     (let logged = log_deleted_ranges db pid existing_ranges user_id sid;
          deleted_ids = fst logged;
          db1 = snd logged;
          db2 = db1\<lparr>pool_date_ranges := filter (\<lambda>r. \<not> is_active_range_of pid r) (pool_date_ranges db1)\<rparr>;
          inserted = insert_new_ranges db2 pid date_ranges user_id sid
      in ((deleted_ids, fst inserted), snd inserted))"

text \<open>
  \<^verbatim>\<open>update_pool_date_ranges\<close>.  The value is the exception raised (\<open>Inl\<close>), or
  the dictionary returned at line 153 (\<open>Inr (Inl d)\<close>), or the pair returned at
  line 207; with it come the session and the remote calls made.
\<close>

definition update_pool_date_ranges ::
  "booking_oracle \<Rightarrow> date \<Rightarrow> database \<Rightarrow> int \<Rightarrow> PoolDateRangeCreate list \<Rightarrow> int \<Rightarrow> int \<Rightarrow> bool
     \<Rightarrow> (string + dict + int list \<times> PoolDateRange list) \<times> database \<times> trace" where
  "update_pool_date_ranges orc today db pid date_ranges user_id sid check_date_ranges_flag =
     (let existing_ranges = filter (is_active_range_of pid) (pool_date_ranges db)
      in if \<not> check_date_ranges_flag
         then
           (case validate_service_pool_changes orc today existing_ranges date_ranges pid sid of
              (Inl e, tr) \<Rightarrow> (Inl e, db, tr)
            | (Inr check_date_capacity, tr) \<Rightarrow>
                if get check_date_capacity ''success'' VNone = VBool False
                then (Inr (Inl check_date_capacity), db, tr)
                else (let r = replace_date_ranges db existing_ranges pid date_ranges user_id sid
                      in (Inr (Inr (fst r)), snd r, tr)))
         else (let r = replace_date_ranges db existing_ranges pid date_ranges user_id sid
               in (Inr (Inr (fst r)), snd r, [])))"


section \<open>The HTTP handlers (api.py)\<close>

text \<open>
  A handler returns either a \<^verbatim>\<open>JSONResponse\<close> with a status code, or a bare
  dictionary, which the framework sends as the body of a 200 response.
\<close>

datatype http_result = JSONResponse int dict | Body dict

text \<open>
  Collaborators that live outside the source files: the two methods of
  \<^verbatim>\<open>DateRangeChecker\<close> that the handlers call, and the subscriber lookup of
  \<^verbatim>\<open>Helper\<close>.  They are parameters of the handlers.  Event publication has no
  effect on what a handler returns and is left out.

  The handlers catch every exception and answer with \<^verbatim>\<open>str(e)\<close>.  Three
  exceptions are raised by the interpreter itself: reading a local variable that
  was never assigned, a missing dictionary key, and unpacking a dictionary of
  three keys into two names.  The wording of \<^verbatim>\<open>str(e)\<close> for them belongs to the
  interpreter and is the parameter \<open>str_of\<close>.
\<close>

datatype raised = UnboundLocalError string | KeyError string | TooManyValuesToUnpack

record collaborators =
  find_overlapping_ranges :: "(date \<times> date) list \<Rightarrow> string list"
  check_date_gaps :: "(date \<times> date) list \<Rightarrow> string list"
  get_subscriber_details_from_cache :: "int \<Rightarrow> dict"
  str_of :: "raised \<Rightarrow> string"

definition far_future :: date where
  \<comment> \<open>the ordinal of 9999-12-31\<close>
  "far_future = 3652059"

definition convert_pool_date_ranges :: "PoolDateRangeCreate list \<Rightarrow> (date \<times> date) list" where
  \<comment> \<open>crud.py, lines 272--294; the two formatted dates of each range\<close>
  "convert_pool_date_ranges rs =
     map (\<lambda>range_obj. (start_date range_obj,
                        case end_date range_obj of None \<Rightarrow> far_future | Some e \<Rightarrow> e)) rs"

definition failure :: "string \<Rightarrow> string \<Rightarrow> dict" where
  "failure msg key = [(''success'', VBool False), (''message'', VStr msg), (''translation_key'', VStr key)]"

definition unexpected :: "string \<Rightarrow> http_result" where
  \<comment> \<open>the handler of \<^verbatim>\<open>except Exception\<close>\<close>
  "unexpected e = JSONResponse 400 [(''success'', VBool False), (''message'', VStr e)]"

text \<open>
  Lines 34--44 of \<^verbatim>\<open>create_pool_with_dates\<close> and 84--94 of \<^verbatim>\<open>edit_pool\<close>, which are
  the same statements.  Each \<^verbatim>\<open>for\<close> loop returns in its first iteration.
\<close>

definition check_date_ranges_structure :: "collaborators \<Rightarrow> PoolDateRangeCreate list \<Rightarrow> http_result option" where
  "check_date_ranges_structure env rs =
     (if rs \<noteq> []
      then
        (let date_ranges = convert_pool_date_ranges rs
         in case find_overlapping_ranges env date_ranges of
              overlap # others \<Rightarrow> Some (JSONResponse 400 (failure overlap ''POOL_DATES_OVERLAPS''))
            | [] \<Rightarrow>
                (case check_date_gaps env date_ranges of
                   gap # others \<Rightarrow> Some (JSONResponse 400 (failure gap ''POOL_DATE_GAPS''))
                 | [] \<Rightarrow> None))
      else None)"

text \<open>
  Lines 52--56 and 110--114: \<open>Inl\<close> is what the handler returns at once,
  \<open>Inr\<close> the details it goes on with.  A missing key raises \<^verbatim>\<open>KeyError\<close>.
\<close>

definition subscriber_details_of :: "collaborators \<Rightarrow> int \<Rightarrow> http_result + val" where
  "subscriber_details_of env sid =
     (let subscriber_details = get_subscriber_details_from_cache env sid
      in if map_of subscriber_details ''success'' = Some (VBool False)
         then Inl (Body subscriber_details)
         else (case map_of subscriber_details ''data'' of
                 None \<Rightarrow> Inl (unexpected (str_of env (KeyError ''data'')))
               | Some v \<Rightarrow> Inr v))"

definition create_pool_with_dates ::
  "collaborators \<Rightarrow> database \<Rightarrow> PoolCreate \<Rightarrow> int \<Rightarrow> int \<Rightarrow> http_result \<times> database" where
  "create_pool_with_dates env db pool user_id sid =
     (case check_date_ranges_structure env (new_date_ranges pool) of
        Some rejection \<Rightarrow> (rejection, db)
      | None \<Rightarrow>
          (case create_pool db pool user_id sid of
             Inl IntegrityError \<Rightarrow> (JSONResponse 400 (failure UNIQUE_POOL_NAME ''UNIQUE_POOL_NAME''), db)
           | Inl (Error e) \<Rightarrow> (unexpected e, db)
           | Inr (db_pool, db1) \<Rightarrow>
               (let db2 = (if new_date_ranges pool \<noteq> []
                           then snd (create_pool_date_ranges db1 (pool_pk db_pool)
                                       (new_date_ranges pool) user_id sid)
                           else db1)
                in case subscriber_details_of env sid of
                     Inl r \<Rightarrow> (r, db2)
                   | Inr details \<Rightarrow>
                       if new_date_ranges pool \<noteq> []
                       then (JSONResponse 200
                               [(''success'', VBool True), (''message'', VStr DATA_INSERT_SUCCESSFUL),
                                (''translation_key'', VStr ''DATA_INSERT_SUCCESSFUL'')], db2)
                       else (unexpected (str_of env (UnboundLocalError ''db_date_ranges'')), db2))))"

text \<open>
  \<^verbatim>\<open>edit_pool\<close>.  Line 105 returns the dictionary of
  \<^verbatim>\<open>update_pool_date_ranges\<close> as it is; a dictionary that fails that test would
  reach the unpacking of line 108, which raises.
\<close>

definition edit_pool ::
  "collaborators \<Rightarrow> booking_oracle \<Rightarrow> date \<Rightarrow> database \<Rightarrow> PoolUpdate \<Rightarrow> int \<Rightarrow> int
     \<Rightarrow> http_result \<times> database \<times> trace" where
  "edit_pool env orc today db pool_update user_id sid =
     (let check_date_ranges_flag = check_date_ranges pool_update;
          rs = (case upd_date_ranges pool_update of None \<Rightarrow> [] | Some l \<Rightarrow> l)
      in case check_date_ranges_structure env rs of
           Some rejection \<Rightarrow> (rejection, db, [])
         | None \<Rightarrow>
             (case update_pool db (upd_id pool_update) pool_update user_id of
                Inl IntegrityError \<Rightarrow>
                  (JSONResponse 400 (failure UNIQUE_POOL_NAME ''UNIQUE_POOL_NAME''), db, [])
              | Inl (Error e) \<Rightarrow> (unexpected e, db, [])
              | Inr (None, db1) \<Rightarrow>
                  (JSONResponse 404 (failure POOL_NOT_FOUND ''POOL_NOT_FOUND''), db1, [])
              | Inr (Some db_pool, db1) \<Rightarrow>
                  if rs \<noteq> []
                  then
                    (case update_pool_date_ranges orc today db1 (upd_id pool_update) rs
                            user_id sid check_date_ranges_flag of
                       (Inl e, db2, tr) \<Rightarrow> (unexpected e, db2, tr)
                     | (Inr (Inl updated_date_range), db2, tr) \<Rightarrow>
                         if map_of updated_date_range ''success'' = Some (VBool False)
                         then (Body updated_date_range, db2, tr)
                         else (unexpected (str_of env TooManyValuesToUnpack), db2, tr)
                     | (Inr (Inr (deleted_ids, updated_data)), db2, tr) \<Rightarrow>
                         (case subscriber_details_of env sid of
                            Inl r \<Rightarrow> (r, db2, tr)
                          | Inr details \<Rightarrow>
                              (JSONResponse 200
                                 [(''success'', VBool True), (''message'', VStr DATA_UPDATE_SUCCESSFUL),
                                  (''translation_key'', VStr ''DATA_UPDATE_SUCCESSFUL'')], db2, tr)))
                  else (unexpected (str_of env (UnboundLocalError ''updated_date_range'')), db1, [])))"


section \<open>Clipping a rule to the requested window (adjust\_dates)\<close>

text \<open>
  An argument is a string or a date.  \<^verbatim>\<open>datetime.strptime(_, "%Y-%m-%d").date()\<close>
  belongs to the standard library and is a parameter: \<open>Inl\<close> carries the text of
  the \<^verbatim>\<open>ValueError\<close> it raises.  The two messages come from a parameter module
  that is not among the source files.  Dates are totally ordered, so with
  arguments of these two kinds nothing else can be raised and the last handler
  (\<^verbatim>\<open>UNEXPECTED_ERROR\<close>) is never entered.  An argument of another kind
  (\<^verbatim>\<open>None\<close>, a \<^verbatim>\<open>datetime\<close>) makes a comparison raise \<^verbatim>\<open>TypeError\<close>, which that
  handler answers; such arguments are not values of \<open>date_input\<close>.
\<close>

datatype date_input = Str string | Date date

record calendar_params =
  STARTDATEGREATERTHANENDDATE :: string
  INVALIDDATEFORMAT :: string

definition to_date :: "(string \<Rightarrow> string + date) \<Rightarrow> date_input \<Rightarrow> string + date" where
  "to_date strptime x = (case x of Str s \<Rightarrow> strptime s | Date d \<Rightarrow> Inr d)"

definition invalid_date_format :: "calendar_params \<Rightarrow> string \<Rightarrow> dict" where
  "invalid_date_format P ve =
     [(''success'', VBool False), (''api_error'', VStr ve),
      (''message'', VStr (INVALIDDATEFORMAT P)), (''translation_key'', VStr ''INVALID_DATE_FORMAT'')]"

definition adjust_dates ::
  "calendar_params \<Rightarrow> (string \<Rightarrow> string + date)
     \<Rightarrow> date_input \<Rightarrow> date_input \<Rightarrow> date_input \<Rightarrow> date_input \<Rightarrow> dict" where
  "adjust_dates P strptime rule_start_date rule_end_date request_start_date request_end_date =
     (case to_date strptime rule_start_date of
        Inl ve \<Rightarrow> invalid_date_format P ve
      | Inr rule_start \<Rightarrow>
     (case to_date strptime rule_end_date of
        Inl ve \<Rightarrow> invalid_date_format P ve
      | Inr rule_end \<Rightarrow>
     (case to_date strptime request_start_date of
        Inl ve \<Rightarrow> invalid_date_format P ve
      | Inr request_start \<Rightarrow>
     (case to_date strptime request_end_date of
        Inl ve \<Rightarrow> invalid_date_format P ve
      | Inr request_end \<Rightarrow>
          if request_start > request_end
          then [(''success'', VBool False), (''message'', VStr (STARTDATEGREATERTHANENDDATE P)),
                (''translation_key'', VStr ''START_DATE_GREATER_THAN_END_DATE'')]
          else
            (let adjusted_start_date = max request_start rule_start;
                 adjusted_end_date = min request_end rule_end
             in [(''success'', VBool True), (''start_date'', VDate adjusted_start_date),
                 (''end_date'', VDate adjusted_end_date)])))))"


section \<open>The overlap and gap checks\<close>

text \<open>
  Modelled from the spec: the class \<^verbatim>\<open>DateRangeChecker\<close>, whose methods
  \<^verbatim>\<open>find_overlapping_ranges\<close> and \<^verbatim>\<open>check_date_gaps\<close> the handlers call, is imported
  from a module that is not among the source files.  Section 4.3 of the
  specification: an overlap is flagged for every unordered pair of ranges with
  \<open>start_A \<le> end_B\<close> and \<open>start_B \<le> end_A\<close>; for the gaps the ranges are sorted by
  start, and a gap is flagged for each consecutive pair where the next start is
  strictly more than one day after the previous end.  The wording of a finding
  is not specified and is a parameter.
\<close>

fun spec_find_overlapping_ranges ::
  "(date \<times> date \<Rightarrow> date \<times> date \<Rightarrow> string) \<Rightarrow> (date \<times> date) list \<Rightarrow> string list" where
  "spec_find_overlapping_ranges describe [] = []"
| "spec_find_overlapping_ranges describe (a # rest) =
     map (describe a) (filter (\<lambda>b. fst a \<le> snd b \<and> fst b \<le> snd a) rest)
       @ spec_find_overlapping_ranges describe rest"

fun consecutive_gaps ::
  "(date \<times> date \<Rightarrow> date \<times> date \<Rightarrow> string) \<Rightarrow> (date \<times> date) list \<Rightarrow> string list" where
  "consecutive_gaps describe (a # b # rest) =
     (if fst b > snd a + 1 then [describe a b] else []) @ consecutive_gaps describe (b # rest)"
| "consecutive_gaps describe rest = []"

definition spec_check_date_gaps ::
  "(date \<times> date \<Rightarrow> date \<times> date \<Rightarrow> string) \<Rightarrow> (date \<times> date) list \<Rightarrow> string list" where
  "spec_check_date_gaps describe rs = consecutive_gaps describe (sort_key fst rs)"

definition spec_checker ::
  "(date \<times> date \<Rightarrow> date \<times> date \<Rightarrow> string) \<Rightarrow> (date \<times> date \<Rightarrow> date \<times> date \<Rightarrow> string)
     \<Rightarrow> (int \<Rightarrow> dict) \<Rightarrow> (raised \<Rightarrow> string) \<Rightarrow> collaborators" where
  "spec_checker describe_overlap describe_gap details render =
     \<lparr>find_overlapping_ranges = spec_find_overlapping_ranges describe_overlap,
      check_date_gaps = spec_check_date_gaps describe_gap,
      get_subscriber_details_from_cache = details,
      str_of = render\<rparr>"


section \<open>Sample data\<close>

text \<open>
  The dates used below, as ordinals: 2023-01-01 = 738521, 2023-12-31 = 738885,
  2024-01-01 = 738886, 2024-01-05 = 738890, 2024-01-10 = 738895,
  2024-01-20 = 738905, 2024-01-31 = 738916, 2024-03-01 = 738946,
  2024-06-30 = 739067, 2024-12-31 = 739251.
\<close>

definition bookings_everywhere :: booking_oracle where
  "bookings_everywhere tr q =
     Inr [(''is_booking_exists'', VBool True), (''is_capacity_check'', VBool True)]"

definition bookings_within_capacity :: booking_oracle where
  "bookings_within_capacity tr q =
     Inr [(''is_booking_exists'', VBool True), (''is_capacity_check'', VBool False)]"

definition bookings_nowhere :: booking_oracle where
  "bookings_nowhere tr q =
     Inr [(''is_booking_exists'', VBool False), (''is_capacity_check'', VBool False)]"

definition stored_range :: "int \<Rightarrow> date \<Rightarrow> date option \<Rightarrow> int \<Rightarrow> PoolDateRange" where
  "stored_range k s e c =
     \<lparr>start_date = s, end_date = e, capacity = c, id_pk = k, pool_id = 7, created_by_id = 1,
      updated_by_id = None, subscriber_id = 3, deleted = 0, record_status = 1\<rparr>"

definition proposed_range :: "date \<Rightarrow> date option \<Rightarrow> int \<Rightarrow> PoolDateRangeCreate" where
  "proposed_range s e c = \<lparr>start_date = s, end_date = e, capacity = c\<rparr>"

definition sample_pool :: Pool where
  "sample_pool =
     \<lparr>pool_pk = 7, name = ''Courts'', remarks = None, pool_created_by_id = 1,
      pool_updated_by_id = None, pool_subscriber_id = 3, pool_deleted = 0,
      pool_record_status = 1\<rparr>"

definition sample_db :: database where
  "sample_db =
     \<lparr>pools = [sample_pool],
      pool_date_ranges = [stored_range 1 738886 (Some 739067) 5],
      pool_date_range_history = [],
      next_pool_pk = 8, next_range_pk = 2, next_history_pk = 1\<rparr>"

text \<open>A service that has bookings exactly in the periods that start on or after a day.\<close>

definition bookings_from :: "date \<Rightarrow> booking_oracle" where
  "bookings_from d tr q =
     Inr [(''is_booking_exists'', VBool (d \<le> q_start_date q)),
          (''is_capacity_check'', VBool (d \<le> q_start_date q))]"

definition db_with :: "PoolDateRange list \<Rightarrow> database" where
  "db_with rows =
     \<lparr>pools = [sample_pool], pool_date_ranges = rows, pool_date_range_history = [],
      next_pool_pk = 8, next_range_pk = 1 + int (length rows), next_history_pk = 1\<rparr>"

definition sample_details :: "int \<Rightarrow> dict" where
  "sample_details sid = [(''success'', VBool True), (''data'', VInt sid)]"

definition overlap_text :: "date \<times> date \<Rightarrow> date \<times> date \<Rightarrow> string" where
  "overlap_text a b = (if fst b = 738890 then ''overlap with the second range''
                       else ''overlap with the third range'')"

definition gap_text :: "date \<times> date \<Rightarrow> date \<times> date \<Rightarrow> string" where
  "gap_text a b = (if fst b = 738895 then ''gap before the second range''
                   else ''gap before the third range'')"

definition sample_str_of :: "raised \<Rightarrow> string" where
  "sample_str_of e =
     (case e of
        UnboundLocalError v \<Rightarrow> ''local variable '' @ v @ '' referenced before assignment''
      | KeyError k \<Rightarrow> k
      | TooManyValuesToUnpack \<Rightarrow> ''too many values to unpack (expected 2)'')"

definition sample_env :: collaborators where
  "sample_env = spec_checker overlap_text gap_text sample_details sample_str_of"

definition sample_update :: "bool \<Rightarrow> PoolDateRangeCreate list \<Rightarrow> PoolUpdate" where
  "sample_update flag rs =
     \<lparr>upd_id = 7, check_date_ranges = flag, upd_name = None, upd_remarks = None,
      upd_date_ranges = Some rs\<rparr>"

text \<open>
  Three ranges that overlap pairwise (01-01 to 01-20, 01-05 to 01-31, 01-10 to
  03-01), three ranges with two gaps (01-01 to 01-05, 01-10 to 01-20, 01-31
  onwards), and two ranges that tile the time line.
\<close>

definition overlapping_ranges :: "PoolDateRangeCreate list" where
  "overlapping_ranges =
     [proposed_range 738886 (Some 738905) 5, proposed_range 738890 (Some 738916) 5,
      proposed_range 738895 (Some 738946) 5]"

definition gapped_ranges :: "PoolDateRangeCreate list" where
  "gapped_ranges =
     [proposed_range 738886 (Some 738890) 5, proposed_range 738895 (Some 738905) 5,
      proposed_range 738916 None 5]"

definition tiling_ranges :: "PoolDateRangeCreate list" where
  "tiling_ranges = [proposed_range 738886 (Some 739067) 5, proposed_range 739068 None 5]"

definition sample_strptime :: "string \<Rightarrow> string + date" where
  "sample_strptime s =
     (if s = ''2024-01-01'' then Inr 738886
      else if s = ''2024-01-05'' then Inr 738890
      else if s = ''2024-01-10'' then Inr 738895
      else if s = ''2024-01-20'' then Inr 738905
      else if s = ''2024-01-31'' then Inr 738916
      else Inl ''time data does not match format'')"

definition sample_params :: calendar_params where
  "sample_params =
     \<lparr>STARTDATEGREATERTHANENDDATE = ''Start date is greater than end date'',
      INVALIDDATEFORMAT = ''Invalid date format''\<rparr>"


section \<open>Auxiliary facts about the reconciliation loop\<close>

lemma get_soft_reject:
  "get (soft_reject m) ''success'' v = VBool False"
  "get (soft_reject m) ''dialogue'' v = VBool True"
  "get (soft_reject m) ''message'' v = VStr m"
  by (simp_all add: get_def soft_reject_def)


lemma reject_not_accept: "soft_reject m \<noteq> accept" "hard_reject m \<noteq> accept"
  by (simp_all add: soft_reject_def hard_reject_def accept_def)

lemma date_range_changed_iff:
  "date_range_changed s1 e1 s2 e2 \<longleftrightarrow> excluded_date_ranges s1 e1 s2 e2 \<noteq> []"
  by (simp add: date_range_changed_def excluded_date_ranges_def start_side_def end_side_def
      split: option.splits)

lemma check_excluded_append:
  "check_excluded orc pid sid oc nc (xs @ ys) tr =
     (case check_excluded orc pid sid oc nc xs tr of
        (Inr None, tr1) \<Rightarrow> check_excluded orc pid sid oc nc ys tr1
      | r \<Rightarrow> r)"
proof (induction xs arbitrary: tr)
  case Nil
  show ?case by simp
next
  case (Cons x xs)
  obtain a b where x: "x = (a, b)" by (cases x)
  show ?case
    unfolding x
    by (simp add: Cons.IH check_booking_available_def Let_def split: sum.splits)
qed

lemma check_excluded_rejects:
  "check_excluded orc pid sid oc nc xs tr = (Inr (Some d), tr') \<Longrightarrow>
     d = soft_reject REDUCED_DATE_CAPACITY_MESSAGE \<or> d = soft_reject REDUCE_DATE_MESSAGE"
proof (induction xs arbitrary: tr)
  case Nil
  then show ?case by simp
next
  case (Cons x xs)
  obtain a b where x: "x = (a, b)" by (cases x)
  from Cons.prems show ?case
    unfolding x
    by (auto simp: check_booking_available_def Let_def split: sum.splits if_splits
        dest: Cons.IH)
qed

lemma validate_position_rejects:
  assumes "validate_position orc today pid sid p tr = (Inr (Some d), tr')"
  shows "d \<in> {hard_reject PAST_DATE_ERROR, hard_reject DATE_VALIDATION,
              soft_reject REDUCED_DATE_CAPACITY_MESSAGE, soft_reject REDUCE_DATE_MESSAGE,
              soft_reject REDUCE_CAPACITY_MESSSAGE}"
  using assms
  by (auto simp: validate_position_def check_date_change_def check_capacity_def
      check_booking_available_def Let_def
      split: if_splits sum.splits option.splits prod.splits
      dest: check_excluded_rejects)

lemma validate_loop_rejects:
  "validate_loop orc today pid sid ps tr = (Inr d, tr') \<Longrightarrow>
     d \<in> {accept, hard_reject PAST_DATE_ERROR, hard_reject DATE_VALIDATION,
              soft_reject REDUCED_DATE_CAPACITY_MESSAGE, soft_reject REDUCE_DATE_MESSAGE,
              soft_reject REDUCE_CAPACITY_MESSSAGE}"
proof (induction ps arbitrary: tr)
  case Nil
  then show ?case by simp
next
  case (Cons p ps)
  show ?case
  proof (cases "validate_position orc today pid sid p tr")
    case (Pair r tr1)
    show ?thesis
    proof (cases r)
      case (Inl e)
      with Pair Cons.prems show ?thesis by simp
    next
      case (Inr od)
      show ?thesis
      proof (cases od)
        case None
        with Inr Pair Cons.prems Cons.IH[of tr1] show ?thesis by simp
      next
        case (Some d')
        with Inr Pair Cons.prems validate_position_rejects[of orc today pid sid p tr d' tr1]
        show ?thesis by auto
      qed
    qed
  qed
qed

lemma validate_position_not_accept:
  "validate_position orc today pid sid p tr = (Inr (Some d), tr') \<Longrightarrow> d \<noteq> accept"
  using validate_position_rejects[of orc today pid sid p tr d tr']
    reject_not_accept(1)[of REDUCED_DATE_CAPACITY_MESSAGE] reject_not_accept(1)[of REDUCE_DATE_MESSAGE]
    reject_not_accept(1)[of REDUCE_CAPACITY_MESSSAGE]
    reject_not_accept(2)[of PAST_DATE_ERROR] reject_not_accept(2)[of DATE_VALIDATION]
  by auto

lemma validate_loop_append:
  "validate_loop orc today pid sid (ps @ qs) tr =
     (case validate_loop orc today pid sid ps tr of
        (Inl e, tr1) \<Rightarrow> (Inl e, tr1)
      | (Inr d, tr1) \<Rightarrow>
          if d = accept then validate_loop orc today pid sid qs tr1 else (Inr d, tr1))"
proof (induction ps arbitrary: tr)
  case Nil
  show ?case by simp
next
  case (Cons p ps)
  show ?case
  proof (cases "validate_position orc today pid sid p tr")
    case (Pair r tr1)
    show ?thesis
    proof (cases r)
      case (Inl e)
      with Pair show ?thesis by simp
    next
      case (Inr od)
      show ?thesis
      proof (cases od)
        case None
        with Inr Pair Cons.IH[of tr1] show ?thesis by simp
      next
        case (Some d')
        with Inr Pair validate_position_not_accept[of orc today pid sid p tr d' tr1]
        show ?thesis by simp
      qed
    qed
  qed
qed

lemma check_excluded_trace:
  "check_excluded orc pid sid oc nc xs tr = (r, tr') \<Longrightarrow>
     \<exists>qs. tr' = tr @ qs \<and>
       (\<forall>q\<in>set qs. \<exists>x\<in>set xs. q_start_date q = fst x \<and> q_end_date q = Some (snd x))"
proof (induction xs arbitrary: tr)
  case Nil
  then show ?case by simp
next
  case (Cons x xs)
  obtain a b where x: "x = (a, b)" by (cases x)
  show ?case
  proof (cases "orc tr (booking_data pid a (Some b) oc sid False)")
    case (Inl e)
    with Cons.prems x show ?thesis
      by (auto simp: check_booking_available_def booking_data_def)
  next
    case (Inr bc)
    show ?thesis
    proof (cases "truthy (get bc ''is_booking_exists'' (VBool False))")
      case True
      with Cons.prems x Inr show ?thesis
        by (auto simp: check_booking_available_def booking_data_def Let_def split: if_splits sum.splits)
    next
      case False
      with Cons.prems x Inr
      have "check_excluded orc pid sid oc nc xs (tr @ [booking_data pid a (Some b) oc sid False]) = (r, tr')"
        by (simp add: check_booking_available_def)
      from Cons.IH[OF this] obtain qs where
        qs: "tr' = (tr @ [booking_data pid a (Some b) oc sid False]) @ qs"
        "\<forall>q\<in>set qs. \<exists>x\<in>set xs. q_start_date q = fst x \<and> q_end_date q = Some (snd x)"
        by blast
      show ?thesis
        apply (rule exI[of _ "booking_data pid a (Some b) oc sid False # qs"])
        using qs x by (auto simp: booking_data_def)
    qed
  qed
qed

lemma validate_position_passes_basic:
  assumes "\<forall>e. end_date new = Some e \<longrightarrow> today \<le> e \<and> start_date new \<le> e"
  shows "validate_position orc today pid sid (old, new) tr =
     (case check_date_change orc pid sid (capacity old) (capacity new)
             (start_date old) (end_date old) (start_date new) (end_date new) tr of
        (Inl e, tr1) \<Rightarrow> (Inl e, tr1)
      | (Inr (Some d), tr1) \<Rightarrow> (Inr (Some d), tr1)
      | (Inr None, tr1) \<Rightarrow>
          if capacity old > capacity new
          then check_capacity orc pid sid (start_date old) (end_date old) (capacity new) tr1
          else (Inr None, tr1))"
proof (cases "end_date new")
  case None
  then show ?thesis by (simp add: validate_position_def Let_def)
next
  case (Some e)
  with assms have "today \<le> e" "start_date new \<le> e" by auto
  with Some show ?thesis by (simp add: validate_position_def Let_def)
qed

lemma validate_position_same_dates:
  assumes "start_date new = start_date old" "end_date new = end_date old"
    "capacity old \<le> capacity new"
  shows "validate_position orc today pid sid (old, new) tr =
     (if (case end_date new of None \<Rightarrow> False | Some e \<Rightarrow> e < today)
      then (Inr (Some (hard_reject PAST_DATE_ERROR)), tr)
      else if (case end_date new of None \<Rightarrow> False | Some e \<Rightarrow> start_date new > e)
      then (Inr (Some (hard_reject DATE_VALIDATION)), tr)
      else (Inr None, tr))"
  using assms
  by (simp add: validate_position_def check_date_change_def date_range_changed_def
      start_side_def end_side_def Let_def split: option.splits)

lemma validate_loop_same_dates_step:
  assumes "start_date new = start_date old" "end_date new = end_date old"
    "capacity old \<le> capacity new"
  shows "validate_loop orc today pid sid ((old, new) # ps) tr =
     (if (case end_date new of None \<Rightarrow> False | Some e \<Rightarrow> e < today)
      then (Inr (hard_reject PAST_DATE_ERROR), tr)
      else if (case end_date new of None \<Rightarrow> False | Some e \<Rightarrow> start_date new > e)
      then (Inr (hard_reject DATE_VALIDATION), tr)
      else validate_loop orc today pid sid ps tr)"
  by (simp add: validate_position_same_dates[OF assms])

lemma validate_loop_same_dates:
  assumes "\<forall>(old, new) \<in> set ps. start_date new = start_date old \<and> end_date new = end_date old
             \<and> capacity old \<le> capacity new"
  shows "snd (validate_loop orc today pid sid ps tr) = tr"
    and "fst (validate_loop orc today pid sid ps tr) = Inr accept \<longleftrightarrow>
          (\<forall>(old, new) \<in> set ps. \<forall>e. end_date new = Some e \<longrightarrow> today \<le> e \<and> start_date new \<le> e)"
    and "fst (validate_loop orc today pid sid ps tr)
         \<in> {Inr accept, Inr (hard_reject PAST_DATE_ERROR), Inr (hard_reject DATE_VALIDATION)}"
  using assms
proof (induction ps)
  case Nil
  {
    case 1 show ?case by simp
  next
    case 2 show ?case by simp
  next
    case 3 show ?case by simp
  }
next
  case (Cons p ps)
  obtain old new where p: "p = (old, new)" by (cases p)
  {
    case 1
    then have same: "start_date new = start_date old" "end_date new = end_date old"
      "capacity old \<le> capacity new" using p by auto
    from 1 have rest: "\<forall>(old, new) \<in> set ps. start_date new = start_date old
      \<and> end_date new = end_date old \<and> capacity old \<le> capacity new" by simp
    show ?case
      unfolding p validate_loop_same_dates_step[OF same]
      using Cons.IH(1)[OF rest] by simp
  next
    case 2
    then have same: "start_date new = start_date old" "end_date new = end_date old"
      "capacity old \<le> capacity new" using p by auto
    from 2 have rest: "\<forall>(old, new) \<in> set ps. start_date new = start_date old
      \<and> end_date new = end_date old \<and> capacity old \<le> capacity new" by simp
    show ?case
      unfolding p validate_loop_same_dates_step[OF same]
      using Cons.IH(2)[OF rest] reject_not_accept(2)[of PAST_DATE_ERROR]
        reject_not_accept(2)[of DATE_VALIDATION]
      by (auto split: option.splits)
  next
    case 3
    then have same: "start_date new = start_date old" "end_date new = end_date old"
      "capacity old \<le> capacity new" using p by auto
    from 3 have rest: "\<forall>(old, new) \<in> set ps. start_date new = start_date old
      \<and> end_date new = end_date old \<and> capacity old \<le> capacity new" by simp
    show ?case
      unfolding p validate_loop_same_dates_step[OF same]
      using Cons.IH(3)[OF rest] by simp
  }
qed

lemma zip_take_min:
  "zip (take (min (length xs) (length ys)) xs) (take (min (length xs) (length ys)) ys) = zip xs ys"
  by (induction xs ys rule: list_induct2') simp_all

lemmas eval_defs = validate_service_pool_changes_def validate_position_def check_date_change_def
  check_capacity_def check_booking_available_def date_range_changed_def excluded_date_ranges_def
  start_side_def end_side_def get_def Let_def
  bookings_everywhere_def bookings_nowhere_def bookings_within_capacity_def
  stored_range_def proposed_range_def

section \<open>Auxiliary facts about persistence and the handlers\<close>

lemma log_history_ranges [simp]:
  "pool_date_ranges (log_pool_date_range_history db pid k a s e c u sid) = pool_date_ranges db"
  "next_range_pk (log_pool_date_range_history db pid k a s e c u sid) = next_range_pk db"
  "pools (log_pool_date_range_history db pid k a s e c u sid) = pools db"
  by (simp_all add: log_pool_date_range_history_def Let_def)

lemma log_deleted_ranges_result:
  "fst (log_deleted_ranges db pid rs user_id sid) = map id_pk rs
   \<and> pool_date_ranges (snd (log_deleted_ranges db pid rs user_id sid)) = pool_date_ranges db
   \<and> pools (snd (log_deleted_ranges db pid rs user_id sid)) = pools db"
  by (induction rs arbitrary: db) (simp_all add: Let_def)

lemma insert_new_ranges_result:
  "map PoolDateRangeCreate.truncate (fst (insert_new_ranges db pid rs user_id sid)) = rs
   \<and> list_all (is_active_range_of pid) (fst (insert_new_ranges db pid rs user_id sid))
   \<and> pool_date_ranges (snd (insert_new_ranges db pid rs user_id sid))
        = pool_date_ranges db @ fst (insert_new_ranges db pid rs user_id sid)
   \<and> pools (snd (insert_new_ranges db pid rs user_id sid)) = pools db"
proof (induction rs arbitrary: db)
  case Nil
  show ?case by simp
next
  case (Cons r rs)
  let ?row = "\<lparr>start_date = start_date r, end_date = end_date r,
             capacity = capacity r, id_pk = next_range_pk db, pool_id = pid,
             created_by_id = user_id, updated_by_id = Some user_id, subscriber_id = sid,
             deleted = 0, record_status = 1\<rparr>"
  have head: "PoolDateRangeCreate.truncate ?row = r" "is_active_range_of pid ?row"
    by (simp_all add: PoolDateRangeCreate.truncate_def is_active_range_of_def)
  show ?case
    using head by (simp add: Let_def Cons.IH)
qed

lemma replace_date_ranges_result:
  assumes "existing = filter (is_active_range_of pid) (pool_date_ranges db)"
  shows "fst (fst (replace_date_ranges db existing pid rs user_id sid)) = map id_pk existing
   \<and> map PoolDateRangeCreate.truncate (snd (fst (replace_date_ranges db existing pid rs user_id sid))) = rs
   \<and> filter (is_active_range_of pid) (pool_date_ranges (snd (replace_date_ranges db existing pid rs user_id sid)))
        = snd (fst (replace_date_ranges db existing pid rs user_id sid))
   \<and> filter (\<lambda>r. \<not> is_active_range_of pid r) (pool_date_ranges (snd (replace_date_ranges db existing pid rs user_id sid)))
        = filter (\<lambda>r. \<not> is_active_range_of pid r) (pool_date_ranges db)"
proof -
  define logged where "logged = log_deleted_ranges db pid existing user_id sid"
  define db2 where "db2 = (snd logged)\<lparr>pool_date_ranges :=
      filter (\<lambda>r. \<not> is_active_range_of pid r) (pool_date_ranges (snd logged))\<rparr>"
  define ins where "ins = insert_new_ranges db2 pid rs user_id sid"
  have r: "replace_date_ranges db existing pid rs user_id sid = ((fst logged, fst ins), snd ins)"
    by (simp add: replace_date_ranges_def Let_def logged_def db2_def ins_def)
  have L: "fst logged = map id_pk existing" "pool_date_ranges (snd logged) = pool_date_ranges db"
    using log_deleted_ranges_result[of db pid existing user_id sid] by (simp_all add: logged_def)
  have D: "pool_date_ranges db2 = filter (\<lambda>r. \<not> is_active_range_of pid r) (pool_date_ranges db)"
    by (simp add: db2_def L)
  have I: "map PoolDateRangeCreate.truncate (fst ins) = rs"
    "list_all (is_active_range_of pid) (fst ins)"
    "pool_date_ranges (snd ins) = pool_date_ranges db2 @ fst ins"
    using insert_new_ranges_result[of db2 pid rs user_id sid] by (simp_all add: ins_def)
  have act: "filter (is_active_range_of pid) (fst ins) = fst ins"
    using I(2) by (simp add: list_all_iff)
  have inact: "filter (\<lambda>r. \<not> is_active_range_of pid r) (fst ins) = []"
    using I(2) by (simp add: list_all_iff filter_empty_conv)
  have none: "filter (is_active_range_of pid) (filter (\<lambda>r. \<not> is_active_range_of pid r) xs) = []" for xs
    by (simp add: filter_empty_conv)
  show ?thesis
    by (simp add: r L(1) I(1) I(3) D act inact none)
qed

lemma update_pool_date_ranges_bypass:
  "update_pool_date_ranges orc today db pid rs user_id sid True =
     (Inr (Inr (fst (replace_date_ranges db (filter (is_active_range_of pid) (pool_date_ranges db))
                       pid rs user_id sid))),
      snd (replace_date_ranges db (filter (is_active_range_of pid) (pool_date_ranges db))
             pid rs user_id sid), [])"
  by (simp add: update_pool_date_ranges_def Let_def)

lemma edit_pool_bypass_trace:
  assumes "check_date_ranges pool_update"
  shows "snd (snd (edit_pool env orc today db pool_update user_id sid)) = []"
proof (cases "check_date_ranges_structure env
               (case upd_date_ranges pool_update of None \<Rightarrow> [] | Some l \<Rightarrow> l)")
  case (Some r)
  then show ?thesis by (simp add: edit_pool_def Let_def)
next
  case None
  show ?thesis
  proof (cases "update_pool db (upd_id pool_update) pool_update user_id")
    case (Inl x)
    with None show ?thesis by (cases x) (simp_all add: edit_pool_def Let_def)
  next
    case (Inr y)
    obtain op db1 where y: "y = (op, db1)" by (cases y)
    show ?thesis
    proof (cases op)
      case None': None
      with None Inr y show ?thesis by (simp add: edit_pool_def Let_def)
    next
      case (Some db_pool)
      with None Inr y assms show ?thesis
        by (simp add: edit_pool_def Let_def update_pool_date_ranges_bypass
            split: prod.splits sum.splits)
    qed
  qed
qed

lemma get_invalid_date_format:
  "get (invalid_date_format P ve) ''translation_key'' v = VStr ''INVALID_DATE_FORMAT''"
  "get (invalid_date_format P ve) ''success'' v = VBool False"
  "get (invalid_date_format P ve) ''message'' v = VStr (INVALIDDATEFORMAT P)"
  by (simp_all add: get_def invalid_date_format_def)

lemmas api_defs = edit_pool_def create_pool_with_dates_def check_date_ranges_structure_def
  convert_pool_date_ranges_def update_pool_def create_pool_def update_pool_date_ranges_def
  subscriber_details_of_def sample_env_def spec_checker_def spec_check_date_gaps_def
  sample_details_def sample_update_def sample_db_def sample_pool_def overlap_text_def gap_text_def
  far_future_def failure_def unexpected_def is_active_range_of_def accept_def replace_date_ranges_def Let_def

lemma get_failure:
  "map_of (failure msg key) ''success'' = Some (VBool False)"
  "map_of (failure msg key) ''message'' = Some (VStr msg)"
  "map_of (failure msg key) ''translation_key'' = Some (VStr key)"
  by (simp_all add: failure_def)

lemma rejects_shape:
  assumes "d \<in> {hard_reject PAST_DATE_ERROR, hard_reject DATE_VALIDATION,
              soft_reject REDUCED_DATE_CAPACITY_MESSAGE, soft_reject REDUCE_DATE_MESSAGE,
              soft_reject REDUCE_CAPACITY_MESSSAGE}"
  shows "map_of d ''success'' = Some (VBool False)"
    and "map_of d ''dialogue'' \<in> {Some (VBool False), Some (VBool True)}"
    and "\<exists>msg. map_of d ''message'' = Some (VStr msg)"
    and "map_of d ''translation_key'' = None"
  using assms by (auto simp: hard_reject_def soft_reject_def)

section \<open>Auxiliary facts about reached positions and valid proposals\<close>

lemmas handler_defs = api_defs eval_defs db_with_def bookings_from_def schema_valid_def
  check_end_date_def check_capacity_nonneg_def soft_reject_def hard_reject_def

lemma excluded_window_conflict_head:
  assumes basic: "\<forall>e. end_date new = Some e \<longrightarrow> today \<le> e \<and> start_date new \<le> e"
    and excl: "excluded_date_ranges (start_date old) (end_date old) (start_date new) (end_date new)
                 = pre @ (a, b) # post"
    and pre: "check_excluded orc pid sid (capacity old) (capacity new) pre tr = (Inr None, tr1)"
    and answer: "orc tr1 (booking_data pid a (Some b) (capacity old) sid False) = Inr booking_check"
  shows "(truthy (get booking_check ''is_booking_exists'' (VBool False)) \<longrightarrow>
            validate_loop orc today pid sid ((old, new) # rest) tr =
              (let q_old = booking_data pid a (Some b) (capacity old) sid False;
                   q_new = booking_data pid a (Some b) (capacity new) sid True
               in if capacity old > capacity new
                  then (case orc (tr1 @ [q_old]) q_new of
                          Inl e \<Rightarrow> (Inl e, tr1 @ [q_old, q_new])
                        | Inr capacity_check \<Rightarrow>
                            (Inr (soft_reject
                                    (if truthy (get capacity_check ''is_capacity_check'' (VBool False))
                                     then REDUCED_DATE_CAPACITY_MESSAGE else REDUCE_DATE_MESSAGE)),
                             tr1 @ [q_old, q_new]))
                  else (Inr (soft_reject REDUCE_DATE_MESSAGE), tr1 @ [q_old])))
         \<and> (\<not> truthy (get booking_check ''is_booking_exists'' (VBool False)) \<longrightarrow>
              check_excluded orc pid sid (capacity old) (capacity new) (pre @ (a, b) # post) tr =
                check_excluded orc pid sid (capacity old) (capacity new) post
                  (tr1 @ [booking_data pid a (Some b) (capacity old) sid False]))
         \<and> get (soft_reject m) ''success'' VNone = VBool False
         \<and> get (soft_reject m) ''dialogue'' VNone = VBool True
         \<and> get (soft_reject m) ''message'' VNone = VStr m"
proof -
  let ?oc = "capacity old" and ?nc = "capacity new"
  let ?q_old = "booking_data pid a (Some b) ?oc sid False"
  let ?q_new = "booking_data pid a (Some b) ?nc sid True"
  have step: "check_excluded orc pid sid ?oc ?nc (pre @ (a, b) # post) tr =
                check_excluded orc pid sid ?oc ?nc ((a, b) # post) tr1"
    by (simp add: check_excluded_append pre)
  have no: "\<not> truthy (get booking_check ''is_booking_exists'' (VBool False)) \<Longrightarrow>
              check_excluded orc pid sid ?oc ?nc (pre @ (a, b) # post) tr =
                check_excluded orc pid sid ?oc ?nc post (tr1 @ [?q_old])"
    by (simp add: step check_booking_available_def answer)
  have changed: "date_range_changed (start_date old) (end_date old) (start_date new) (end_date new)"
    by (simp add: date_range_changed_iff excl)
  have pos: "validate_position orc today pid sid (old, new) tr =
     (case check_excluded orc pid sid ?oc ?nc ((a, b) # post) tr1 of
        (Inl e, tr2) \<Rightarrow> (Inl e, tr2)
      | (Inr (Some d), tr2) \<Rightarrow> (Inr (Some d), tr2)
      | (Inr None, tr2) \<Rightarrow>
          if ?oc > ?nc
          then check_capacity orc pid sid (start_date old) (end_date old) ?nc tr2
          else (Inr None, tr2))"
    using validate_position_passes_basic[of new today orc pid sid old tr] basic
    by (simp add: check_date_change_def changed excl step del: check_excluded.simps)
  have yes: "truthy (get booking_check ''is_booking_exists'' (VBool False)) \<Longrightarrow>
            validate_loop orc today pid sid ((old, new) # rest) tr =
              (if ?oc > ?nc
               then (case orc (tr1 @ [?q_old]) ?q_new of
                       Inl e \<Rightarrow> (Inl e, tr1 @ [?q_old, ?q_new])
                     | Inr capacity_check \<Rightarrow>
                         (Inr (soft_reject
                                 (if truthy (get capacity_check ''is_capacity_check'' (VBool False))
                                  then REDUCED_DATE_CAPACITY_MESSAGE else REDUCE_DATE_MESSAGE)),
                          tr1 @ [?q_old, ?q_new]))
               else (Inr (soft_reject REDUCE_DATE_MESSAGE), tr1 @ [?q_old]))"
    by (simp add: pos check_booking_available_def answer Let_def split: sum.splits)
  show ?thesis
    using yes no by (simp add: Let_def get_soft_reject)
qed

lemma capacity_only_check_head:
  assumes basic: "\<forall>e. end_date new = Some e \<longrightarrow> today \<le> e \<and> start_date new \<le> e"
    and dates: "check_date_change orc pid sid (capacity old) (capacity new)
                  (start_date old) (end_date old) (start_date new) (end_date new) tr = (Inr None, tr1)"
    and reduced: "capacity old > capacity new"
  shows "validate_loop orc today pid sid ((old, new) # rest) tr =
           (let q = booking_data pid (start_date old) (end_date old) (capacity new) sid True
            in case orc tr1 q of
                 Inl e \<Rightarrow> (Inl e, tr1 @ [q])
               | Inr capacity_check \<Rightarrow>
                   if truthy (get capacity_check ''is_booking_exists'' (VBool False))
                      \<and> truthy (get capacity_check ''is_capacity_check'' (VBool False))
                   then (Inr (soft_reject REDUCE_CAPACITY_MESSSAGE), tr1 @ [q])
                   else validate_loop orc today pid sid rest (tr1 @ [q]))"
  using validate_position_passes_basic[of new today orc pid sid old tr] basic
  by (simp add: dates reduced check_capacity_def check_booking_available_def Let_def
      split: sum.splits)





section \<open>Excluded sub-ranges of a position\<close>

text \<open>
  Claim C1, as stated, on a position whose end date changes from a bounded date
  to no end date (the end moved later, into the unbounded future): the end
  changed, yet no end-side sub-range is computed, the position counts as
  unchanged, and reconciliation accepts without a remote call even when
  bookings exist everywhere.
\<close>

theorem unbounded_new_end_excludes_nothing:
  "(Some 739067 :: date option) \<noteq> None
   \<and> snd (end_side (Some 739067) None) = []
   \<and> excluded_date_ranges 738886 (Some 739067) 738886 None = []
   \<and> validate_service_pool_changes bookings_everywhere 738886
        [stored_range 1 738886 (Some 739067) 5] [proposed_range 738886 None 5] 7 3 = (Inr accept, [])"
  by (simp add: eval_defs)

text \<open>
  Claim C1, amended.  At a position, a start that differs gives exactly one
  start-side sub-range: (new start, old start) when it moved earlier, (old
  start, new start) when it moved later.  An end-side sub-range is computed only
  when both the old and the new end are bounded and differ: (new end, old end)
  when the end moved earlier, (old end, new end) when it moved later; when
  either end is unbounded there is none.  The excluded list is the start-side
  range followed by the end-side range, so it has at most two entries, and
  every remote query of the date-change branch is over one of them.
\<close>

theorem excluded_sub_ranges_of_position:
  "(start2 < start1 \<longrightarrow> snd (start_side start1 start2) = [(start2, start1)])
   \<and> (start1 < start2 \<longrightarrow> snd (start_side start1 start2) = [(start1, start2)])
   \<and> (start2 = start1 \<longrightarrow> snd (start_side start1 start2) = [])
   \<and> (end1 = Some e1 \<and> end2 = Some e2 \<and> e2 < e1 \<longrightarrow> snd (end_side end1 end2) = [(e2, e1)])
   \<and> (end1 = Some e1 \<and> end2 = Some e2 \<and> e1 < e2 \<longrightarrow> snd (end_side end1 end2) = [(e1, e2)])
   \<and> (end1 = None \<or> end2 = None \<or> end2 = end1 \<longrightarrow> snd (end_side end1 end2) = [])
   \<and> excluded_date_ranges start1 end1 start2 end2
        = snd (start_side start1 start2) @ snd (end_side end1 end2)
   \<and> length (excluded_date_ranges start1 end1 start2 end2) \<le> 2
   \<and> (check_date_change orc pid sid oc nc start1 end1 start2 end2 tr = (r, tr') \<longrightarrow>
        (\<exists>qs. tr' = tr @ qs \<and>
           (\<forall>q\<in>set qs. \<exists>x\<in>set (excluded_date_ranges start1 end1 start2 end2).
              q_start_date q = fst x \<and> q_end_date q = Some (snd x))))"
proof -
  have trace: "check_date_change orc pid sid oc nc start1 end1 start2 end2 tr = (r, tr') \<longrightarrow>
        (\<exists>qs. tr' = tr @ qs \<and>
           (\<forall>q\<in>set qs. \<exists>x\<in>set (excluded_date_ranges start1 end1 start2 end2).
              q_start_date q = fst x \<and> q_end_date q = Some (snd x)))"
  proof (cases "date_range_changed start1 end1 start2 end2")
    case True
    then show ?thesis
      using check_excluded_trace[of orc pid sid oc nc "excluded_date_ranges start1 end1 start2 end2" tr r tr']
      by (simp add: check_date_change_def)
  next
    case False
    then show ?thesis by (simp add: check_date_change_def)
  qed
  have len: "length (excluded_date_ranges start1 end1 start2 end2) \<le> 2"
    by (simp add: excluded_date_ranges_def start_side_def end_side_def split: option.splits)
  have sides: "(start2 < start1 \<longrightarrow> snd (start_side start1 start2) = [(start2, start1)])"
   "(start1 < start2 \<longrightarrow> snd (start_side start1 start2) = [(start1, start2)])"
   "(start2 = start1 \<longrightarrow> snd (start_side start1 start2) = [])"
   "(end1 = Some e1 \<and> end2 = Some e2 \<and> e2 < e1 \<longrightarrow> snd (end_side end1 end2) = [(e2, e1)])"
   "(end1 = Some e1 \<and> end2 = Some e2 \<and> e1 < e2 \<longrightarrow> snd (end_side end1 end2) = [(e1, e2)])"
   "(end1 = None \<or> end2 = None \<or> end2 = end1 \<longrightarrow> snd (end_side end1 end2) = [])"
    by (auto simp: start_side_def end_side_def split: option.splits)
  show ?thesis using trace len sides by (simp only: excluded_date_ranges_def simp_thms)
qed

theorem excluded_sub_ranges_of_position_witness:
  "snd (start_side 738886 738890) = [(738886, 738890)]
   \<and> snd (end_side (Some 739067) (Some 739251)) = [(739067, 739251)]
   \<and> excluded_date_ranges 738886 (Some 739067) 738890 (Some 739251)
        = [(738886, 738890), (739067, 739251)]
   \<and> check_date_change bookings_nowhere 7 3 5 5 738886 (Some 739067) 738890 (Some 739251) []
        = (Inr None, [booking_data 7 738886 (Some 738890) 5 3 False,
                      booking_data 7 739067 (Some 739251) 5 3 False])"
proof -
  have run: "check_date_change bookings_nowhere 7 3 5 5 738886 (Some 739067) 738890 (Some 739251) []
        = (Inr None, [booking_data 7 738886 (Some 738890) 5 3 False,
                      booking_data 7 739067 (Some 739251) 5 3 False])"
    by (simp add: eval_defs)
  show ?thesis
    using excluded_sub_ranges_of_position[of 738890 738886 "Some 739067" 739067 "Some 739251" 739251
        bookings_nowhere 7 3 5 5 "[]" "Inr None"
        "[booking_data 7 738886 (Some 738890) 5 3 False,
          booking_data 7 739067 (Some 739251) 5 3 False]"] run
    by simp
qed

section \<open>Bookings in an excluded sub-range\<close>

text \<open>
  Claim C2, as stated, on an update that moves both the start and the end of
  the only range later (2024-01-01 to 2024-06-30 becomes 2024-01-05 to
  2024-12-31), with bookings everywhere.  The proposal passes the schema and the
  overlap and gap checks.  The position has two excluded sub-ranges, but only
  the start-side one is queried: its answer ends reconciliation with
  \<^verbatim>\<open>REDUCE_DATE_MESSAGE\<close>, and the end-side sub-range is never queried.
\<close>

theorem later_sub_range_is_not_queried:
  "excluded_date_ranges 738886 (Some 739067) 738890 (Some 739251)
       = [(738886, 738890), (739067, 739251)]
   \<and> schema_valid (proposed_range 738890 (Some 739251) 5)
   \<and> check_date_ranges_structure sample_env [proposed_range 738890 (Some 739251) 5] = None
   \<and> edit_pool sample_env bookings_everywhere 738886 sample_db
        (sample_update False [proposed_range 738890 (Some 739251) 5]) 1 3
     = (Body (soft_reject REDUCE_DATE_MESSAGE), sample_db,
        [booking_data 7 738886 (Some 738890) 5 3 False])"
  by (simp add: handler_defs)

text \<open>
  Claim C2, amended.  A position is reached (every earlier position passed) and
  passes the basic date checks; its excluded list is \<open>pre @ (a, b) # post\<close>,
  and the sub-ranges of \<open>pre\<close> were queried without a rejection.  Then \<open>(a, b)\<close>
  is queried at the old capacity.  If the answer reports bookings and the
  capacity was reduced, the same sub-range is queried again at the new capacity
  with the capacity-check flag, and reconciliation returns the soft rejection
  \<^verbatim>\<open>REDUCED_DATE_CAPACITY_MESSAGE\<close> when that answer reports the capacity
  exceeded, and \<^verbatim>\<open>REDUCE_DATE_MESSAGE\<close> otherwise; if the capacity was not reduced
  it returns \<^verbatim>\<open>REDUCE_DATE_MESSAGE\<close> after the one query.  In each case the
  sub-ranges of \<open>post\<close> are not queried.  If the answer reports no booking, the
  loop goes on to the next sub-range.  A soft rejection has \<^verbatim>\<open>success\<close> false and
  \<^verbatim>\<open>dialogue\<close> true.
\<close>

theorem excluded_window_conflict:
  assumes earlier: "validate_loop orc today pid sid ps tr0 = (Inr accept, tr)"
    and basic: "\<forall>e. end_date new = Some e \<longrightarrow> today \<le> e \<and> start_date new \<le> e"
    and excl: "excluded_date_ranges (start_date old) (end_date old) (start_date new) (end_date new)
                 = pre @ (a, b) # post"
    and pre: "check_excluded orc pid sid (capacity old) (capacity new) pre tr = (Inr None, tr1)"
    and answer: "orc tr1 (booking_data pid a (Some b) (capacity old) sid False) = Inr booking_check"
  shows "(truthy (get booking_check ''is_booking_exists'' (VBool False)) \<longrightarrow>
            validate_loop orc today pid sid (ps @ (old, new) # rest) tr0 =
              (let q_old = booking_data pid a (Some b) (capacity old) sid False;
                   q_new = booking_data pid a (Some b) (capacity new) sid True
               in if capacity old > capacity new
                  then (case orc (tr1 @ [q_old]) q_new of
                          Inl e \<Rightarrow> (Inl e, tr1 @ [q_old, q_new])
                        | Inr capacity_check \<Rightarrow>
                            (Inr (soft_reject
                                    (if truthy (get capacity_check ''is_capacity_check'' (VBool False))
                                     then REDUCED_DATE_CAPACITY_MESSAGE else REDUCE_DATE_MESSAGE)),
                             tr1 @ [q_old, q_new]))
                  else (Inr (soft_reject REDUCE_DATE_MESSAGE), tr1 @ [q_old])))
         \<and> (\<not> truthy (get booking_check ''is_booking_exists'' (VBool False)) \<longrightarrow>
              check_excluded orc pid sid (capacity old) (capacity new) (pre @ (a, b) # post) tr =
                check_excluded orc pid sid (capacity old) (capacity new) post
                  (tr1 @ [booking_data pid a (Some b) (capacity old) sid False]))
         \<and> get (soft_reject m) ''success'' VNone = VBool False
         \<and> get (soft_reject m) ''dialogue'' VNone = VBool True
         \<and> get (soft_reject m) ''message'' VNone = VStr m"
proof -
  have reach: "validate_loop orc today pid sid (ps @ (old, new) # rest) tr0
                 = validate_loop orc today pid sid ((old, new) # rest) tr"
    by (simp add: validate_loop_append earlier del: validate_loop.simps)
  show ?thesis
    unfolding reach
    by (rule excluded_window_conflict_head[OF basic excl pre answer])
qed

text \<open>
  Two runs.  In the first the start-side sub-range has no booking and the
  end-side one has, with a reduced capacity that is exceeded.  In the second
  the first position passes after one query and the second position has
  bookings in the days its start gave up.  Both proposals pass the schema and
  the overlap and gap checks.
\<close>

theorem excluded_window_conflict_witness:
  "validate_service_pool_changes (bookings_from 739067) 738886
     [stored_range 1 738886 (Some 739067) 5] [proposed_range 738890 (Some 739251) 3] 7 3
   = (Inr (soft_reject REDUCED_DATE_CAPACITY_MESSAGE),
      [booking_data 7 738886 (Some 738890) 5 3 False,
       booking_data 7 739067 (Some 739251) 5 3 False,
       booking_data 7 739067 (Some 739251) 3 3 True])
   \<and> validate_service_pool_changes (bookings_from 739068) 738886
     [stored_range 1 738886 (Some 739067) 5, stored_range 2 739068 None 5]
     [proposed_range 738886 (Some 739071) 5, proposed_range 739072 None 5] 7 3
   = (Inr (soft_reject REDUCE_DATE_MESSAGE),
      [booking_data 7 739067 (Some 739071) 5 3 False,
       booking_data 7 739068 (Some 739072) 5 3 False])
   \<and> list_all schema_valid [proposed_range 738890 (Some 739251) 3]
   \<and> check_date_ranges_structure sample_env [proposed_range 738890 (Some 739251) 3] = None
   \<and> list_all schema_valid [proposed_range 738886 (Some 739071) 5, proposed_range 739072 None 5]
   \<and> check_date_ranges_structure sample_env
        [proposed_range 738886 (Some 739071) 5, proposed_range 739072 None 5] = None"
proof -
  let ?old = "stored_range 1 738886 (Some 739067) 5"
  let ?new = "proposed_range 738890 (Some 739251) 3"
  have earlier: "validate_loop (bookings_from 739067) 738886 7 3 [] [] = (Inr accept, [])"
    by simp
  have basic: "\<forall>e. end_date ?new = Some e \<longrightarrow> 738886 \<le> e \<and> start_date ?new \<le> e"
    by (simp add: proposed_range_def)
  have excl: "excluded_date_ranges (start_date ?old) (end_date ?old) (start_date ?new) (end_date ?new)
                = [(738886, 738890)] @ (739067, 739251) # []"
    by (simp add: eval_defs)
  have pre: "check_excluded (bookings_from 739067) 7 3 (capacity ?old) (capacity ?new)
               [(738886, 738890)] []
             = (Inr None, [booking_data 7 738886 (Some 738890) 5 3 False])"
    by (simp add: eval_defs bookings_from_def booking_data_def)
  have answer: "bookings_from 739067 [booking_data 7 738886 (Some 738890) 5 3 False]
                  (booking_data 7 739067 (Some 739251) (capacity ?old) 3 False)
      = Inr [(''is_booking_exists'', VBool True), (''is_capacity_check'', VBool True)]"
    by (simp add: bookings_from_def booking_data_def)
  have caps: "capacity ?old = 5" "capacity ?new = 3"
    by (simp_all add: stored_range_def proposed_range_def)
  have again: "bookings_from 739067 t (booking_data 7 739067 (Some 739251) 3 3 True)
      = Inr [(''is_booking_exists'', VBool True), (''is_capacity_check'', VBool True)]" for t
    by (simp add: bookings_from_def booking_data_def)
  have first: "validate_service_pool_changes (bookings_from 739067) 738886 [?old] [?new] 7 3
   = (Inr (soft_reject REDUCED_DATE_CAPACITY_MESSAGE),
      [booking_data 7 738886 (Some 738890) 5 3 False,
       booking_data 7 739067 (Some 739251) 5 3 False,
       booking_data 7 739067 (Some 739251) 3 3 True])"
    using excluded_window_conflict[where orc = "bookings_from 739067" and rest = "[]"
        and m = REDUCE_DATE_MESSAGE and ps = "[]" and old = ?old and new = ?new,
        OF earlier basic excl pre answer]
    by (simp add: validate_service_pool_changes_def get_def caps again del: validate_loop.simps)
  let ?o1 = "stored_range 1 738886 (Some 739067) 5"
  let ?n1 = "proposed_range 738886 (Some 739071) 5"
  let ?o2 = "stored_range 2 739068 None 5"
  let ?n2 = "proposed_range 739072 None 5"
  have earlier2: "validate_loop (bookings_from 739068) 738886 7 3 [(?o1, ?n1)] []
      = (Inr accept, [booking_data 7 739067 (Some 739071) 5 3 False])"
    by (simp add: eval_defs bookings_from_def booking_data_def)
  have basic2: "\<forall>e. end_date ?n2 = Some e \<longrightarrow> 738886 \<le> e \<and> start_date ?n2 \<le> e"
    by (simp add: proposed_range_def)
  have excl2: "excluded_date_ranges (start_date ?o2) (end_date ?o2) (start_date ?n2) (end_date ?n2)
                = [] @ (739068, 739072) # []"
    by (simp add: eval_defs)
  have pre2: "check_excluded (bookings_from 739068) 7 3 (capacity ?o2) (capacity ?n2) []
                [booking_data 7 739067 (Some 739071) 5 3 False]
              = (Inr None, [booking_data 7 739067 (Some 739071) 5 3 False])"
    by simp
  have answer2: "bookings_from 739068 [booking_data 7 739067 (Some 739071) 5 3 False]
                  (booking_data 7 739068 (Some 739072) (capacity ?o2) 3 False)
      = Inr [(''is_booking_exists'', VBool True), (''is_capacity_check'', VBool True)]"
    by (simp add: bookings_from_def booking_data_def)
  have caps2: "capacity ?o2 = 5" "capacity ?n2 = 5"
    by (simp_all add: stored_range_def proposed_range_def)
  have second: "validate_service_pool_changes (bookings_from 739068) 738886
     [?o1, ?o2] [?n1, ?n2] 7 3
   = (Inr (soft_reject REDUCE_DATE_MESSAGE),
      [booking_data 7 739067 (Some 739071) 5 3 False,
       booking_data 7 739068 (Some 739072) 5 3 False])"
    using excluded_window_conflict[where orc = "bookings_from 739068" and rest = "[]"
        and m = REDUCE_DATE_MESSAGE and ps = "[(?o1, ?n1)]" and old = ?o2 and new = ?n2,
        OF earlier2 basic2 excl2 pre2 answer2]
    by (simp add: validate_service_pool_changes_def get_def caps2 del: validate_loop.simps)
  have receivable: "list_all schema_valid [?new]"
    "check_date_ranges_structure sample_env [?new] = None"
    "list_all schema_valid [?n1, ?n2]"
    "check_date_ranges_structure sample_env [?n1, ?n2] = None"
    by (simp_all add: handler_defs)
  show ?thesis
    using first second receivable by simp
qed

section \<open>Capacity reduction over the original range\<close>

text \<open>
  Claim C3, as stated, on two updates that pass the schema and the overlap and
  gap checks, with bookings everywhere.  In the first the only range ended
  before today, its dates are unchanged and its capacity goes from 5 to 3: no
  date-range conflict triggers a rejection and the capacity is reduced, yet no
  query is sent and the answer is \<^verbatim>\<open>PAST_DATE_ERROR\<close>.  In the second both
  ranges keep their dates and reduce the capacity: the first position answers
  \<^verbatim>\<open>REDUCE_CAPACITY_MESSSAGE\<close> and the second position is never queried.
\<close>

theorem reduced_capacity_without_query:
  "(3 :: int) < 5
   \<and> check_date_change bookings_everywhere 7 3 5 3 738521 (Some 738885) 738521 (Some 738885) []
       = (Inr None, [])
   \<and> schema_valid (proposed_range 738521 (Some 738885) 3)
   \<and> check_date_ranges_structure sample_env [proposed_range 738521 (Some 738885) 3] = None
   \<and> edit_pool sample_env bookings_everywhere 738886
        (db_with [stored_range 1 738521 (Some 738885) 5])
        (sample_update False [proposed_range 738521 (Some 738885) 3]) 1 3
     = (Body (hard_reject PAST_DATE_ERROR), db_with [stored_range 1 738521 (Some 738885) 5], [])
   \<and> list_all schema_valid [proposed_range 738886 (Some 739067) 3, proposed_range 739068 None 3]
   \<and> check_date_ranges_structure sample_env
        [proposed_range 738886 (Some 739067) 3, proposed_range 739068 None 3] = None
   \<and> edit_pool sample_env bookings_everywhere 738886
        (db_with [stored_range 1 738886 (Some 739067) 5, stored_range 2 739068 None 5])
        (sample_update False [proposed_range 738886 (Some 739067) 3, proposed_range 739068 None 3]) 1 3
     = (Body (soft_reject REDUCE_CAPACITY_MESSSAGE),
        db_with [stored_range 1 738886 (Some 739067) 5, stored_range 2 739068 None 5],
        [booking_data 7 738886 (Some 739067) 3 3 True])"
  by (simp add: handler_defs)

text \<open>
  Claim C3, amended.  A position is reached (every earlier position passed) and
  passes the basic date checks, its date-change branch ends without a
  rejection, and the capacity was reduced.  Then exactly one more query is
  sent, over the original range (old start, old end) at the new capacity with
  the capacity-check flag, and reconciliation returns the soft rejection
  \<^verbatim>\<open>REDUCE_CAPACITY_MESSSAGE\<close> exactly when the answer reports both that
  bookings exist and that the capacity is exceeded; otherwise it goes on to the
  next position.
\<close>

theorem capacity_only_check:
  assumes earlier: "validate_loop orc today pid sid ps tr0 = (Inr accept, tr)"
    and basic: "\<forall>e. end_date new = Some e \<longrightarrow> today \<le> e \<and> start_date new \<le> e"
    and dates: "check_date_change orc pid sid (capacity old) (capacity new)
                  (start_date old) (end_date old) (start_date new) (end_date new) tr = (Inr None, tr1)"
    and reduced: "capacity old > capacity new"
  shows "validate_loop orc today pid sid (ps @ (old, new) # rest) tr0 =
           (let q = booking_data pid (start_date old) (end_date old) (capacity new) sid True
            in case orc tr1 q of
                 Inl e \<Rightarrow> (Inl e, tr1 @ [q])
               | Inr capacity_check \<Rightarrow>
                   if truthy (get capacity_check ''is_booking_exists'' (VBool False))
                      \<and> truthy (get capacity_check ''is_capacity_check'' (VBool False))
                   then (Inr (soft_reject REDUCE_CAPACITY_MESSSAGE), tr1 @ [q])
                   else validate_loop orc today pid sid rest (tr1 @ [q]))"
proof -
  have reach: "validate_loop orc today pid sid (ps @ (old, new) # rest) tr0
                 = validate_loop orc today pid sid ((old, new) # rest) tr"
    by (simp add: validate_loop_append earlier del: validate_loop.simps)
  show ?thesis
    unfolding reach
    by (rule capacity_only_check_head[OF basic dates reduced])
qed

text \<open>
  Two runs.  In the first the capacity of both ranges is reduced; the first
  position is queried and passes, the second is queried over its open-ended
  original range and rejected.  In the second the only position is queried and
  passes.  The proposals pass the schema and the overlap and gap checks.
\<close>

theorem capacity_only_check_witness:
  "validate_service_pool_changes (bookings_from 739068) 738886
     [stored_range 1 738886 (Some 739067) 5, stored_range 2 739068 None 5]
     [proposed_range 738886 (Some 739067) 3, proposed_range 739068 None 3] 7 3
   = (Inr (soft_reject REDUCE_CAPACITY_MESSSAGE),
      [booking_data 7 738886 (Some 739067) 3 3 True, booking_data 7 739068 None 3 3 True])
   \<and> validate_service_pool_changes bookings_within_capacity 738886
     [stored_range 1 738886 (Some 739067) 5] [proposed_range 738886 (Some 739067) 3] 7 3
   = (Inr accept, [booking_data 7 738886 (Some 739067) 3 3 True])
   \<and> list_all schema_valid [proposed_range 738886 (Some 739067) 3, proposed_range 739068 None 3]
   \<and> check_date_ranges_structure sample_env
        [proposed_range 738886 (Some 739067) 3, proposed_range 739068 None 3] = None"
proof -
  let ?o1 = "stored_range 1 738886 (Some 739067) 5"
  let ?n1 = "proposed_range 738886 (Some 739067) 3"
  let ?o2 = "stored_range 2 739068 None 5"
  let ?n2 = "proposed_range 739068 None 3"
  have earlier: "validate_loop (bookings_from 739068) 738886 7 3 [(?o1, ?n1)] []
      = (Inr accept, [booking_data 7 738886 (Some 739067) 3 3 True])"
    by (simp add: eval_defs bookings_from_def booking_data_def)
  have basic: "\<forall>e. end_date ?n2 = Some e \<longrightarrow> 738886 \<le> e \<and> start_date ?n2 \<le> e"
    by (simp add: proposed_range_def)
  have dates: "check_date_change orc 7 3 (capacity ?o2) (capacity ?n2)
                  (start_date ?o2) (end_date ?o2) (start_date ?n2) (end_date ?n2) t = (Inr None, t)" for orc t
    by (simp add: eval_defs)
  have reduced: "capacity ?o2 > capacity ?n2"
    by (simp add: stored_range_def proposed_range_def)
  have fields: "capacity ?n2 = 3" "start_date ?o2 = 739068" "end_date ?o2 = None"
    by (simp_all add: stored_range_def proposed_range_def)
  have answer: "bookings_from 739068 t (booking_data 7 739068 None 3 3 True)
      = Inr [(''is_booking_exists'', VBool True), (''is_capacity_check'', VBool True)]" for t
    by (simp add: bookings_from_def booking_data_def)
  have first: "validate_service_pool_changes (bookings_from 739068) 738886
     [?o1, ?o2] [?n1, ?n2] 7 3
   = (Inr (soft_reject REDUCE_CAPACITY_MESSSAGE),
      [booking_data 7 738886 (Some 739067) 3 3 True, booking_data 7 739068 None 3 3 True])"
    using capacity_only_check[where orc = "bookings_from 739068" and rest = "[]"
        and ps = "[(?o1, ?n1)]" and old = ?o2 and new = ?n2, OF earlier basic dates reduced]
    by (simp add: validate_service_pool_changes_def get_def fields answer del: validate_loop.simps)
  have earlier0: "validate_loop bookings_within_capacity 738886 7 3 [] [] = (Inr accept, [])"
    by simp
  have basic0: "\<forall>e. end_date ?n1 = Some e \<longrightarrow> 738886 \<le> e \<and> start_date ?n1 \<le> e"
    by (simp add: proposed_range_def)
  have dates0: "check_date_change orc 7 3 (capacity ?o1) (capacity ?n1)
                  (start_date ?o1) (end_date ?o1) (start_date ?n1) (end_date ?n1) [] = (Inr None, [])" for orc
    by (simp add: eval_defs)
  have reduced0: "capacity ?o1 > capacity ?n1"
    by (simp add: stored_range_def proposed_range_def)
  have fields0: "capacity ?n1 = 3" "start_date ?o1 = 738886" "end_date ?o1 = Some 739067"
    by (simp_all add: stored_range_def proposed_range_def)
  have answer0: "bookings_within_capacity t q
      = Inr [(''is_booking_exists'', VBool True), (''is_capacity_check'', VBool False)]" for t q
    by (simp add: bookings_within_capacity_def)
  have second: "validate_service_pool_changes bookings_within_capacity 738886 [?o1] [?n1] 7 3
   = (Inr accept, [booking_data 7 738886 (Some 739067) 3 3 True])"
    using capacity_only_check[where orc = bookings_within_capacity and rest = "[]"
        and ps = "[]" and old = ?o1 and new = ?n1, OF earlier0 basic0 dates0 reduced0]
    by (simp add: validate_service_pool_changes_def get_def fields0 answer0)
  have receivable: "list_all schema_valid [?n1, ?n2]"
    "check_date_ranges_structure sample_env [?n1, ?n2] = None"
    by (simp_all add: handler_defs)
  show ?thesis
    using first second receivable by simp
qed

section \<open>Unchanged dates without a capacity reduction\<close>

text \<open>
  Claim C4, as stated, on an unchanged partition whose range ended before
  today: reconciliation returns the hard rejection \<^verbatim>\<open>PAST_DATE_ERROR\<close>, not
  acceptance.
\<close>

theorem unchanged_past_range_is_rejected:
  "validate_service_pool_changes bookings_nowhere 738886
     [stored_range 1 738521 (Some 738885) 5] [proposed_range 738521 (Some 738885) 5] 7 3
   = (Inr (hard_reject PAST_DATE_ERROR), [])
   \<and> hard_reject PAST_DATE_ERROR \<noteq> accept"
  by (simp add: eval_defs hard_reject_def accept_def)

text \<open>
  Claim C4, amended.  When at every correlated position the dates are unchanged
  and the new capacity is at least the old one, reconciliation makes no remote
  call; it accepts exactly when no correlated proposed range has a bounded end
  that is before today or before its start, and otherwise returns the hard
  rejection \<^verbatim>\<open>PAST_DATE_ERROR\<close> or \<^verbatim>\<open>DATE_VALIDATION\<close>.
\<close>

theorem same_dates_no_reduction_makes_no_call:
  assumes "\<forall>(old, new) \<in> set (zip existing_ranges date_ranges).
             start_date new = start_date old \<and> end_date new = end_date old
             \<and> capacity old \<le> capacity new"
  shows "snd (validate_service_pool_changes orc today existing_ranges date_ranges pid sid) = []
    \<and> (fst (validate_service_pool_changes orc today existing_ranges date_ranges pid sid) = Inr accept
         \<longleftrightarrow> (\<forall>(old, new) \<in> set (zip existing_ranges date_ranges).
                \<forall>e. end_date new = Some e \<longrightarrow> today \<le> e \<and> start_date new \<le> e))
    \<and> fst (validate_service_pool_changes orc today existing_ranges date_ranges pid sid)
         \<in> {Inr accept, Inr (hard_reject PAST_DATE_ERROR), Inr (hard_reject DATE_VALIDATION)}"
  unfolding validate_service_pool_changes_def
  using validate_loop_same_dates[OF assms, of orc today pid sid "[]"]
  by blast

theorem same_dates_no_reduction_makes_no_call_witness:
  "validate_service_pool_changes bookings_everywhere 738886
     [stored_range 1 738886 (Some 739067) 5, stored_range 2 739068 None 5]
     [proposed_range 738886 (Some 739067) 5, proposed_range 739068 None 9] 7 3
   = (Inr accept, [])"
proof -
  let ?ex = "[stored_range 1 738886 (Some 739067) 5, stored_range 2 739068 None 5]"
  let ?pr = "[proposed_range 738886 (Some 739067) 5, proposed_range 739068 None 9]"
  have same: "\<forall>(old, new) \<in> set (zip ?ex ?pr).
      start_date new = start_date old \<and> end_date new = end_date old \<and> capacity old \<le> capacity new"
    by (simp add: stored_range_def proposed_range_def)
  have ok: "\<forall>(old, new) \<in> set (zip ?ex ?pr).
      \<forall>e. end_date new = Some e \<longrightarrow> 738886 \<le> e \<and> start_date new \<le> e"
    by (simp add: stored_range_def proposed_range_def)
  show ?thesis
    using same_dates_no_reduction_makes_no_call[OF same, of bookings_everywhere 738886 7 3] ok
    by (simp add: prod_eq_iff)
qed

section \<open>The basic date checks\<close>




section \<open>Partitions of different lengths\<close>

text \<open>
  Claim C10.  The positions are those of the zip: reconciliation of two
  partitions is reconciliation of their first \<open>min\<close> (length, length) ranges.
  Proposed ranges beyond the existing ones and existing ranges beyond the
  proposed ones change neither the result nor the remote calls, and with no
  existing range, or no proposed range, the result is acceptance without a
  call.
\<close>

theorem zip_examines_common_positions_only:
  "validate_service_pool_changes orc today existing_ranges date_ranges pid sid
     = validate_service_pool_changes orc today
         (take (min (length existing_ranges) (length date_ranges)) existing_ranges)
         (take (min (length existing_ranges) (length date_ranges)) date_ranges) pid sid
   \<and> (length date_ranges = length existing_ranges \<longrightarrow>
        validate_service_pool_changes orc today existing_ranges (date_ranges @ added) pid sid
          = validate_service_pool_changes orc today existing_ranges date_ranges pid sid)
   \<and> (length date_ranges = length existing_ranges \<longrightarrow>
        validate_service_pool_changes orc today (existing_ranges @ removed) date_ranges pid sid
          = validate_service_pool_changes orc today existing_ranges date_ranges pid sid)
   \<and> validate_service_pool_changes orc today [] added pid sid = (Inr accept, [])
   \<and> validate_service_pool_changes orc today removed [] pid sid = (Inr accept, [])"
  by (simp add: validate_service_pool_changes_def zip_take_min zip_append1 zip_append2)

theorem zip_examines_common_positions_only_witness:
  "validate_service_pool_changes bookings_everywhere 738886
     [stored_range 1 738886 (Some 739067) 5]
     ([proposed_range 738886 (Some 739067) 5] @ [proposed_range 738521 (Some 738885) 0]) 7 3
   = (Inr accept, [])
   \<and> validate_service_pool_changes bookings_everywhere 738886
     [] [proposed_range 738521 (Some 738885) 0] 7 3
   = (Inr accept, [])"
proof -
  have short: "validate_service_pool_changes bookings_everywhere 738886
     [stored_range 1 738886 (Some 739067) 5] [proposed_range 738886 (Some 739067) 5] 7 3
   = (Inr accept, [])"
    by (simp add: eval_defs)
  show ?thesis
    using zip_examines_common_positions_only[of bookings_everywhere 738886 "[stored_range 1 738886 (Some 739067) 5]"
        "[proposed_range 738886 (Some 739067) 5]" 7 3
        "[proposed_range 738521 (Some 738885) 0]" "[]"] short
    by simp
qed

section \<open>The bypass flag\<close>

text \<open>
  Claim C6.  With \<^verbatim>\<open>check_date_ranges\<close> set, \<^verbatim>\<open>update_pool_date_ranges\<close> makes no
  remote call and its result does not depend on the remote service or on the
  date, whatever the stored and the proposed ranges are: reconciliation is not
  evaluated.  It returns the keys of the active ranges of the pool as deleted
  and one new row per proposed range; afterwards the active ranges of the pool
  are exactly the new rows, and the other rows are untouched.  \<^verbatim>\<open>edit_pool\<close>
  passes the flag of the request on, so it makes no remote call either.
\<close>

theorem bypass_flag_skips_reconciliation:
  "snd (snd (update_pool_date_ranges orc today db pid date_ranges user_id sid True)) = []
   \<and> update_pool_date_ranges orc today db pid date_ranges user_id sid True
       = update_pool_date_ranges orc' today' db pid date_ranges user_id sid True
   \<and> (\<exists>updated_data db'.
         update_pool_date_ranges orc today db pid date_ranges user_id sid True
           = (Inr (Inr (map id_pk (filter (is_active_range_of pid) (pool_date_ranges db)), updated_data)), db', [])
         \<and> map PoolDateRangeCreate.truncate updated_data = date_ranges
         \<and> filter (is_active_range_of pid) (pool_date_ranges db') = updated_data
         \<and> filter (\<lambda>r. \<not> is_active_range_of pid r) (pool_date_ranges db')
              = filter (\<lambda>r. \<not> is_active_range_of pid r) (pool_date_ranges db))
   \<and> snd (snd (edit_pool env orc today db (pool_update\<lparr>check_date_ranges := True\<rparr>) user_id sid)) = []"
proof -
  let ?existing = "filter (is_active_range_of pid) (pool_date_ranges db)"
  let ?r = "replace_date_ranges db ?existing pid date_ranges user_id sid"
  note u = update_pool_date_ranges_bypass
  have ex: "\<exists>updated_data db'.
         update_pool_date_ranges orc today db pid date_ranges user_id sid True
           = (Inr (Inr (map id_pk ?existing, updated_data)), db', [])
         \<and> map PoolDateRangeCreate.truncate updated_data = date_ranges
         \<and> filter (is_active_range_of pid) (pool_date_ranges db') = updated_data
         \<and> filter (\<lambda>r. \<not> is_active_range_of pid r) (pool_date_ranges db')
              = filter (\<lambda>r. \<not> is_active_range_of pid r) (pool_date_ranges db)"
    apply (rule exI[of _ "snd (fst ?r)"])
    apply (rule exI[of _ "snd ?r"])
    using replace_date_ranges_result[where db = db and pid = pid and rs = date_ranges
        and user_id = user_id and sid = sid, OF refl]
    by (simp add: u prod_eq_iff)
  have edit: "snd (snd (edit_pool env orc today db (pool_update\<lparr>check_date_ranges := True\<rparr>) user_id sid)) = []"
    by (rule edit_pool_bypass_trace) simp
  show ?thesis using ex edit by (simp add: u)
qed

theorem bypass_flag_skips_reconciliation_witness:
  "edit_pool sample_env bookings_everywhere 738886 sample_db
     (sample_update True [proposed_range 738890 (Some 739067) 3]) 1 3
     = (JSONResponse 200
          [(''success'', VBool True), (''message'', VStr DATA_UPDATE_SUCCESSFUL),
           (''translation_key'', VStr ''DATA_UPDATE_SUCCESSFUL'')],
        \<lparr>pools = [sample_pool],
         pool_date_ranges =
           [\<lparr>start_date = 738890, end_date = Some 739067, capacity = 3, id_pk = 2, pool_id = 7,
             created_by_id = 1, updated_by_id = Some 1, subscriber_id = 3, deleted = 0,
             record_status = 1\<rparr>],
         pool_date_range_history =
           [\<lparr>history_pk = 1, history_pool_id = 7, pool_date_range_id = 1, action_type = ''DELETE'',
             old_start_date = Some 738886, old_end_date = Some 739067, old_capacity = Some 5,
             history_created_by_id = 1, history_subscriber_id = 3\<rparr>,
            \<lparr>history_pk = 2, history_pool_id = 7, pool_date_range_id = 2, action_type = ''INSERT'',
             old_start_date = None, old_end_date = None, old_capacity = None,
             history_created_by_id = 1, history_subscriber_id = 3\<rparr>],
         next_pool_pk = 8, next_range_pk = 3, next_history_pk = 3\<rparr>,
        [])
   \<and> fst (edit_pool sample_env bookings_everywhere 738886 sample_db
            (sample_update False [proposed_range 738890 (Some 739067) 3]) 1 3)
     = Body (soft_reject REDUCED_DATE_CAPACITY_MESSAGE)"
proof -
  have t: "sample_update True rs = (sample_update False rs)\<lparr>check_date_ranges := True\<rparr>" for rs
    by (simp add: sample_update_def)
  have run: "fst (edit_pool sample_env bookings_everywhere 738886 sample_db
     (sample_update True [proposed_range 738890 (Some 739067) 3]) 1 3)
     = JSONResponse 200
          [(''success'', VBool True), (''message'', VStr DATA_UPDATE_SUCCESSFUL),
           (''translation_key'', VStr ''DATA_UPDATE_SUCCESSFUL'')]
    \<and> fst (snd (edit_pool sample_env bookings_everywhere 738886 sample_db
     (sample_update True [proposed_range 738890 (Some 739067) 3]) 1 3))
     = \<lparr>pools = [sample_pool],
         pool_date_ranges =
           [\<lparr>start_date = 738890, end_date = Some 739067, capacity = 3, id_pk = 2, pool_id = 7,
             created_by_id = 1, updated_by_id = Some 1, subscriber_id = 3, deleted = 0,
             record_status = 1\<rparr>],
         pool_date_range_history =
           [\<lparr>history_pk = 1, history_pool_id = 7, pool_date_range_id = 1, action_type = ''DELETE'',
             old_start_date = Some 738886, old_end_date = Some 739067, old_capacity = Some 5,
             history_created_by_id = 1, history_subscriber_id = 3\<rparr>,
            \<lparr>history_pk = 2, history_pool_id = 7, pool_date_range_id = 2, action_type = ''INSERT'',
             old_start_date = None, old_end_date = None, old_capacity = None,
             history_created_by_id = 1, history_subscriber_id = 3\<rparr>],
         next_pool_pk = 8, next_range_pk = 3, next_history_pk = 3\<rparr>"
    by (simp add: api_defs proposed_range_def stored_range_def log_pool_date_range_history_def Let_def)
  have rej: "fst (edit_pool sample_env bookings_everywhere 738886 sample_db
            (sample_update False [proposed_range 738890 (Some 739067) 3]) 1 3)
     = Body (soft_reject REDUCED_DATE_CAPACITY_MESSAGE)"
    by (simp add: api_defs eval_defs soft_reject_def)
  show ?thesis
    using bypass_flag_skips_reconciliation[where env = sample_env and orc = bookings_everywhere and today = 738886
        and db = sample_db and user_id = 1 and sid = 3
        and pool_update = "sample_update False [proposed_range 738890 (Some 739067) 3]"]
      run rej
    by (simp add: t prod_eq_iff)
qed

section \<open>Clipping\<close>

text \<open>
  Claim C7.  When the four arguments of \<^verbatim>\<open>adjust_dates\<close> parse as dates, the result
  is the failure with translation key \<^verbatim>\<open>START_DATE_GREATER_THAN_END_DATE\<close> exactly
  when the request start is after the request end, whatever the rule bounds are;
  otherwise it is a success with start the later of request start and rule
  start, and end the earlier of request end and rule end, which may leave the
  start after the end.  When an argument is a string that does not parse, the
  result is the failure with translation key \<^verbatim>\<open>INVALID_DATE_FORMAT\<close>.  A date
  argument is taken as it is.
\<close>

theorem adjust_dates_checks_request_then_clips:
  "(to_date strptime rule_start_date = Inr rule_start
      \<and> to_date strptime rule_end_date = Inr rule_end
      \<and> to_date strptime request_start_date = Inr request_start
      \<and> to_date strptime request_end_date = Inr request_end \<longrightarrow>
        adjust_dates P strptime rule_start_date rule_end_date request_start_date request_end_date
          = (if request_start > request_end
             then [(''success'', VBool False), (''message'', VStr (STARTDATEGREATERTHANENDDATE P)),
                   (''translation_key'', VStr ''START_DATE_GREATER_THAN_END_DATE'')]
             else [(''success'', VBool True),
                   (''start_date'', VDate (max request_start rule_start)),
                   (''end_date'', VDate (min request_end rule_end))])
        \<and> (get (adjust_dates P strptime rule_start_date rule_end_date request_start_date
                    request_end_date) ''translation_key'' VNone
               = VStr ''START_DATE_GREATER_THAN_END_DATE''
             \<longleftrightarrow> request_start > request_end))
   \<and> ((\<exists>ve. to_date strptime rule_start_date = Inl ve \<or> to_date strptime rule_end_date = Inl ve
            \<or> to_date strptime request_start_date = Inl ve
            \<or> to_date strptime request_end_date = Inl ve) \<longrightarrow>
        get (adjust_dates P strptime rule_start_date rule_end_date request_start_date
               request_end_date) ''translation_key'' VNone = VStr ''INVALID_DATE_FORMAT''
        \<and> get (adjust_dates P strptime rule_start_date rule_end_date request_start_date
               request_end_date) ''success'' VNone = VBool False)
   \<and> to_date strptime (Date d) = Inr d
   \<and> to_date strptime (Str s) = strptime s"
proof -
  have ok: "to_date strptime rule_start_date = Inr rule_start
      \<and> to_date strptime rule_end_date = Inr rule_end
      \<and> to_date strptime request_start_date = Inr request_start
      \<and> to_date strptime request_end_date = Inr request_end \<Longrightarrow>
        adjust_dates P strptime rule_start_date rule_end_date request_start_date request_end_date
          = (if request_start > request_end
             then [(''success'', VBool False), (''message'', VStr (STARTDATEGREATERTHANENDDATE P)),
                   (''translation_key'', VStr ''START_DATE_GREATER_THAN_END_DATE'')]
             else [(''success'', VBool True),
                   (''start_date'', VDate (max request_start rule_start)),
                   (''end_date'', VDate (min request_end rule_end))])"
    by (simp add: adjust_dates_def Let_def)
  have key: "get (if request_start > request_end
             then [(''success'', VBool False), (''message'', VStr (STARTDATEGREATERTHANENDDATE P)),
                   (''translation_key'', VStr ''START_DATE_GREATER_THAN_END_DATE'')]
             else [(''success'', VBool True),
                   (''start_date'', VDate (max request_start rule_start)),
                   (''end_date'', VDate (min request_end rule_end))]) ''translation_key'' VNone
           = VStr ''START_DATE_GREATER_THAN_END_DATE'' \<longleftrightarrow> request_start > request_end"
    by (simp add: get_def)
  have bad: "(\<exists>ve. to_date strptime rule_start_date = Inl ve \<or> to_date strptime rule_end_date = Inl ve
            \<or> to_date strptime request_start_date = Inl ve
            \<or> to_date strptime request_end_date = Inl ve) \<Longrightarrow>
        get (adjust_dates P strptime rule_start_date rule_end_date request_start_date
               request_end_date) ''translation_key'' VNone = VStr ''INVALID_DATE_FORMAT''
        \<and> get (adjust_dates P strptime rule_start_date rule_end_date request_start_date
               request_end_date) ''success'' VNone = VBool False"
    by (auto simp: adjust_dates_def get_invalid_date_format split: sum.splits)
  have conv: "to_date strptime (Date d) = Inr d" "to_date strptime (Str s) = strptime s"
    by (simp_all add: to_date_def)
  show ?thesis
    using ok key bad conv by presburger
qed

theorem adjust_dates_checks_request_then_clips_witness:
  "adjust_dates sample_params sample_strptime (Str ''2024-01-01'') (Str ''2024-01-31'')
      (Str ''2024-01-10'') (Str ''2024-01-05'')
     = [(''success'', VBool False), (''message'', VStr ''Start date is greater than end date''),
        (''translation_key'', VStr ''START_DATE_GREATER_THAN_END_DATE'')]
   \<and> adjust_dates sample_params sample_strptime (Str ''2024-01-05'') (Date 738905)
      (Date 738886) (Str ''2024-01-31'')
     = [(''success'', VBool True), (''start_date'', VDate 738890), (''end_date'', VDate 738905)]
   \<and> adjust_dates sample_params sample_strptime (Str ''2024-01-01'') (Str ''2024-01-05'')
      (Str ''2024-01-10'') (Str ''2024-01-20'')
     = [(''success'', VBool True), (''start_date'', VDate 738895), (''end_date'', VDate 738890)]
   \<and> get (adjust_dates sample_params sample_strptime (Str ''2024-01-01'') (Str ''31/01/2024'')
      (Str ''2024-01-10'') (Str ''2024-01-05'')) ''translation_key'' VNone
     = VStr ''INVALID_DATE_FORMAT''"
proof -
  have p: "to_date sample_strptime (Str ''2024-01-01'') = Inr 738886"
    "to_date sample_strptime (Str ''2024-01-05'') = Inr 738890"
    "to_date sample_strptime (Str ''2024-01-10'') = Inr 738895"
    "to_date sample_strptime (Str ''2024-01-20'') = Inr 738905"
    "to_date sample_strptime (Str ''2024-01-31'') = Inr 738916"
    "to_date sample_strptime (Date 738905) = Inr 738905"
    "to_date sample_strptime (Date 738886) = Inr 738886"
    "to_date sample_strptime (Str ''31/01/2024'') = Inl ''time data does not match format''"
    by (simp_all add: to_date_def sample_strptime_def)
  have s: "STARTDATEGREATERTHANENDDATE sample_params = ''Start date is greater than end date''"
    by (simp add: sample_params_def)
  show ?thesis
    using
      adjust_dates_checks_request_then_clips[where P = sample_params and strptime = sample_strptime
        and rule_start_date = "Str ''2024-01-01''" and rule_end_date = "Str ''2024-01-31''"
        and request_start_date = "Str ''2024-01-10''" and request_end_date = "Str ''2024-01-05''"
        and rule_start = 738886 and rule_end = 738916
        and request_start = 738895 and request_end = 738890]
      adjust_dates_checks_request_then_clips[where P = sample_params and strptime = sample_strptime
        and rule_start_date = "Str ''2024-01-05''" and rule_end_date = "Date 738905"
        and request_start_date = "Date 738886" and request_end_date = "Str ''2024-01-31''"
        and rule_start = 738890 and rule_end = 738905
        and request_start = 738886 and request_end = 738916]
      adjust_dates_checks_request_then_clips[where P = sample_params and strptime = sample_strptime
        and rule_start_date = "Str ''2024-01-01''" and rule_end_date = "Str ''2024-01-05''"
        and request_start_date = "Str ''2024-01-10''" and request_end_date = "Str ''2024-01-20''"
        and rule_start = 738886 and rule_end = 738890
        and request_start = 738895 and request_end = 738905]
      adjust_dates_checks_request_then_clips[where P = sample_params and strptime = sample_strptime
        and rule_start_date = "Str ''2024-01-01''" and rule_end_date = "Str ''31/01/2024''"
        and request_start_date = "Str ''2024-01-10''" and request_end_date = "Str ''2024-01-05''"]
    by (simp add: p s to_date_def sample_strptime_def)
qed

section \<open>The shape of failure results\<close>

text \<open>
  Claim C8, on the code.  When the structural checks pass, the pool exists, the
  bypass flag is not set and reconciliation returns a failure, \<^verbatim>\<open>edit_pool\<close>
  returns that dictionary unchanged as its body.  It is one of the two hard and
  three soft rejections, and carries \<^verbatim>\<open>success\<close> false, a \<^verbatim>\<open>dialogue\<close> flag and a
  \<^verbatim>\<open>message\<close>, but no \<^verbatim>\<open>translation_key\<close>.  The rejections that the same
  handlers build for an overlap or a gap are 400 responses that do carry
  \<^verbatim>\<open>success\<close> false, a \<^verbatim>\<open>message\<close> and a \<^verbatim>\<open>translation_key\<close>.
\<close>

theorem reconciliation_failure_reaches_caller_unchanged:
  assumes well_formed: "check_date_ranges_structure env rs = None"
    and ranges: "upd_date_ranges pool_update = Some rs" "rs \<noteq> []"
    and pool: "update_pool db (upd_id pool_update) pool_update user_id = Inr (Some db_pool, db1)"
    and flag: "\<not> check_date_ranges pool_update"
    and decision: "validate_service_pool_changes orc today
                     (filter (is_active_range_of (upd_id pool_update)) (pool_date_ranges db1))
                     rs (upd_id pool_update) sid = (Inr d, tr)"
    and failed: "d \<noteq> accept"
  shows "edit_pool env orc today db pool_update user_id sid = (Body d, db1, tr)
    \<and> d \<in> {hard_reject PAST_DATE_ERROR, hard_reject DATE_VALIDATION,
            soft_reject REDUCED_DATE_CAPACITY_MESSAGE, soft_reject REDUCE_DATE_MESSAGE,
            soft_reject REDUCE_CAPACITY_MESSSAGE}
    \<and> map_of d ''success'' = Some (VBool False)
    \<and> map_of d ''dialogue'' \<in> {Some (VBool False), Some (VBool True)}
    \<and> (\<exists>msg. map_of d ''message'' = Some (VStr msg))
    \<and> map_of d ''translation_key'' = None
    \<and> (\<forall>r. check_date_ranges_structure env rs' = Some r \<longrightarrow>
           (\<exists>finding key. r = JSONResponse 400 (failure finding key)))
    \<and> map_of (failure finding key) ''success'' = Some (VBool False)
    \<and> map_of (failure finding key) ''message'' = Some (VStr finding)
    \<and> map_of (failure finding key) ''translation_key'' = Some (VStr key)"
proof -
  have built: "\<forall>r. check_date_ranges_structure env rs' = Some r \<longrightarrow>
           (\<exists>finding key. r = JSONResponse 400 (failure finding key))"
    by (auto simp: check_date_ranges_structure_def Let_def split: if_splits list.splits)
  have "d \<in> {accept, hard_reject PAST_DATE_ERROR, hard_reject DATE_VALIDATION,
            soft_reject REDUCED_DATE_CAPACITY_MESSAGE, soft_reject REDUCE_DATE_MESSAGE,
            soft_reject REDUCE_CAPACITY_MESSSAGE}"
    using decision validate_loop_rejects unfolding validate_service_pool_changes_def by blast
  with failed have d: "d \<in> {hard_reject PAST_DATE_ERROR, hard_reject DATE_VALIDATION,
            soft_reject REDUCED_DATE_CAPACITY_MESSAGE, soft_reject REDUCE_DATE_MESSAGE,
            soft_reject REDUCE_CAPACITY_MESSSAGE}" by simp
  note shape = rejects_shape[OF d]
  have upd: "update_pool_date_ranges orc today db1 (upd_id pool_update) rs user_id sid
               (check_date_ranges pool_update) = (Inr (Inl d), db1, tr)"
    using flag decision shape(1) by (simp add: update_pool_date_ranges_def Let_def get_def)
  have "edit_pool env orc today db pool_update user_id sid = (Body d, db1, tr)"
    using well_formed ranges pool shape(1) by (simp add: edit_pool_def Let_def upd)
  with d shape built show ?thesis by (simp add: get_failure)
qed

text \<open>
  Two updates that pass the schema and the structural checks: one whose
  proposed range ended before today, one that moves the start over booked days.
  Each failure reaches the caller without a \<^verbatim>\<open>translation_key\<close>.
\<close>

theorem reconciliation_failure_reaches_caller_unchanged_witness:
  "edit_pool sample_env bookings_nowhere 738886 sample_db
     (sample_update False [proposed_range 738521 (Some 738885) 5]) 1 3
     = (Body (hard_reject PAST_DATE_ERROR), sample_db, [])
   \<and> map_of (hard_reject PAST_DATE_ERROR) ''translation_key'' = None
   \<and> list_all schema_valid [proposed_range 738521 (Some 738885) 5]
   \<and> edit_pool sample_env bookings_everywhere 738886 sample_db
     (sample_update False [proposed_range 738890 (Some 739067) 5]) 1 3
     = (Body (soft_reject REDUCE_DATE_MESSAGE), sample_db,
        [booking_data 7 738886 (Some 738890) 5 3 False])
   \<and> map_of (soft_reject REDUCE_DATE_MESSAGE) ''translation_key'' = None
   \<and> list_all schema_valid [proposed_range 738890 (Some 739067) 5]"
proof -
  let ?past = "[proposed_range 738521 (Some 738885) 5]"
  let ?rs = "[proposed_range 738890 (Some 739067) 5]"
  have well_formed: "check_date_ranges_structure sample_env ?past = None"
    "check_date_ranges_structure sample_env ?rs = None"
    by (simp_all add: api_defs proposed_range_def)
  have ranges: "upd_date_ranges (sample_update False rs) = Some rs" for rs
    by (simp add: sample_update_def)
  have ne: "?past \<noteq> []" "?rs \<noteq> []"
    by simp_all
  have pool: "update_pool sample_db (upd_id (sample_update False rs)) (sample_update False rs) 1
                = Inr (Some sample_pool, sample_db)" for rs
    by (simp add: update_pool_def sample_update_def sample_db_def sample_pool_def Let_def)
  have flag: "\<not> check_date_ranges (sample_update False rs)" for rs
    by (simp add: sample_update_def)
  have decision_past: "validate_service_pool_changes bookings_nowhere 738886
                     (filter (is_active_range_of (upd_id (sample_update False ?past)))
                        (pool_date_ranges sample_db))
                     ?past (upd_id (sample_update False ?past)) 3
                   = (Inr (hard_reject PAST_DATE_ERROR), [])"
    by (simp add: eval_defs sample_update_def sample_db_def is_active_range_of_def)
  have decision: "validate_service_pool_changes bookings_everywhere 738886
                     (filter (is_active_range_of (upd_id (sample_update False ?rs)))
                        (pool_date_ranges sample_db))
                     ?rs (upd_id (sample_update False ?rs)) 3
                   = (Inr (soft_reject REDUCE_DATE_MESSAGE),
                      [booking_data 7 738886 (Some 738890) 5 3 False])"
    by (simp add: eval_defs sample_update_def sample_db_def is_active_range_of_def)
  have failed: "hard_reject PAST_DATE_ERROR \<noteq> accept" "soft_reject REDUCE_DATE_MESSAGE \<noteq> accept"
    by (rule reject_not_accept)+
  have valid: "list_all schema_valid ?past" "list_all schema_valid ?rs"
    by (simp_all add: schema_valid_def check_end_date_def check_capacity_nonneg_def
        proposed_range_def)
  show ?thesis
    using
      reconciliation_failure_reaches_caller_unchanged[where env = sample_env
        and orc = bookings_nowhere, OF well_formed(1) ranges ne(1) pool flag decision_past failed(1)]
      reconciliation_failure_reaches_caller_unchanged[where env = sample_env
        and orc = bookings_everywhere, OF well_formed(2) ranges ne(2) pool flag decision failed(2)]
      valid
    by simp
qed

section \<open>Several overlaps or gaps in one request\<close>

text \<open>
  Claim C9, on the handlers, for any overlap and gap check.  When the overlap
  check reports findings, \<^verbatim>\<open>edit_pool\<close> and \<^verbatim>\<open>create_pool_with_dates\<close> answer with a
  400 response that carries the first finding only, whatever the other findings
  are, and the gap check is not consulted; when it reports none and the gap
  check reports findings, they answer with the first gap only.  Nothing is
  written and no remote call is made.  When both checks report nothing, no
  rejection is produced.
\<close>

theorem only_first_finding_is_surfaced:
  "(rs \<noteq> [] \<and> find_overlapping_ranges env (convert_pool_date_ranges rs) = overlap # others \<longrightarrow>
      check_date_ranges_structure env rs
        = Some (JSONResponse 400 (failure overlap ''POOL_DATES_OVERLAPS''))
      \<and> edit_pool env orc today db (pool_update\<lparr>upd_date_ranges := Some rs\<rparr>) user_id sid
        = (JSONResponse 400 (failure overlap ''POOL_DATES_OVERLAPS''), db, [])
      \<and> create_pool_with_dates env db (pool\<lparr>new_date_ranges := rs\<rparr>) user_id sid
        = (JSONResponse 400 (failure overlap ''POOL_DATES_OVERLAPS''), db))
   \<and> (rs \<noteq> [] \<and> find_overlapping_ranges env (convert_pool_date_ranges rs) = []
        \<and> check_date_gaps env (convert_pool_date_ranges rs) = gap # others \<longrightarrow>
      check_date_ranges_structure env rs
        = Some (JSONResponse 400 (failure gap ''POOL_DATE_GAPS''))
      \<and> edit_pool env orc today db (pool_update\<lparr>upd_date_ranges := Some rs\<rparr>) user_id sid
        = (JSONResponse 400 (failure gap ''POOL_DATE_GAPS''), db, [])
      \<and> create_pool_with_dates env db (pool\<lparr>new_date_ranges := rs\<rparr>) user_id sid
        = (JSONResponse 400 (failure gap ''POOL_DATE_GAPS''), db))
   \<and> (find_overlapping_ranges env (convert_pool_date_ranges rs) = []
        \<and> check_date_gaps env (convert_pool_date_ranges rs) = [] \<longrightarrow>
      check_date_ranges_structure env rs = None)"
  by (simp add: check_date_ranges_structure_def edit_pool_def create_pool_with_dates_def Let_def)

text \<open>
  With the checks of section 4.3 of the specification: three ranges that overlap
  pairwise give three findings and a response with the first one; three ranges
  with two gaps give two findings and a response with the first one; two ranges
  that tile the time line give no finding and no rejection.
\<close>

theorem only_first_finding_is_surfaced_witness:
  "find_overlapping_ranges sample_env (convert_pool_date_ranges overlapping_ranges)
     = [''overlap with the second range'', ''overlap with the third range'',
        ''overlap with the third range'']
   \<and> edit_pool sample_env bookings_nowhere 738886 sample_db
        (sample_update False overlapping_ranges) 1 3
     = (JSONResponse 400 (failure ''overlap with the second range'' ''POOL_DATES_OVERLAPS''),
        sample_db, [])
   \<and> create_pool_with_dates sample_env sample_db
        \<lparr>new_name = ''Gym'', new_remarks = None, new_date_ranges = overlapping_ranges\<rparr> 1 3
     = (JSONResponse 400 (failure ''overlap with the second range'' ''POOL_DATES_OVERLAPS''),
        sample_db)
   \<and> find_overlapping_ranges sample_env (convert_pool_date_ranges gapped_ranges) = []
   \<and> check_date_gaps sample_env (convert_pool_date_ranges gapped_ranges)
     = [''gap before the second range'', ''gap before the third range'']
   \<and> edit_pool sample_env bookings_nowhere 738886 sample_db
        (sample_update False gapped_ranges) 1 3
     = (JSONResponse 400 (failure ''gap before the second range'' ''POOL_DATE_GAPS''),
        sample_db, [])
   \<and> find_overlapping_ranges sample_env (convert_pool_date_ranges tiling_ranges) = []
   \<and> check_date_gaps sample_env (convert_pool_date_ranges tiling_ranges) = []
   \<and> check_date_ranges_structure sample_env tiling_ranges = None"
proof -
  have o: "find_overlapping_ranges sample_env (convert_pool_date_ranges overlapping_ranges)
     = ''overlap with the second range'' # [''overlap with the third range'',
        ''overlap with the third range'']"
    by (simp add: sample_env_def spec_checker_def convert_pool_date_ranges_def
        overlapping_ranges_def proposed_range_def overlap_text_def)
  have g0: "find_overlapping_ranges sample_env (convert_pool_date_ranges gapped_ranges) = []"
    by (simp add: sample_env_def spec_checker_def convert_pool_date_ranges_def
        gapped_ranges_def proposed_range_def far_future_def)
  have g: "check_date_gaps sample_env (convert_pool_date_ranges gapped_ranges)
     = ''gap before the second range'' # [''gap before the third range'']"
    by (simp add: sample_env_def spec_checker_def convert_pool_date_ranges_def
        gapped_ranges_def proposed_range_def far_future_def spec_check_date_gaps_def gap_text_def)
  have t0: "find_overlapping_ranges sample_env (convert_pool_date_ranges tiling_ranges) = []"
    by (simp add: sample_env_def spec_checker_def convert_pool_date_ranges_def
        tiling_ranges_def proposed_range_def far_future_def)
  have t: "check_date_gaps sample_env (convert_pool_date_ranges tiling_ranges) = []"
    by (simp add: sample_env_def spec_checker_def convert_pool_date_ranges_def
        tiling_ranges_def proposed_range_def far_future_def spec_check_date_gaps_def)
  have ne: "overlapping_ranges \<noteq> []" "gapped_ranges \<noteq> []"
    by (simp_all add: overlapping_ranges_def gapped_ranges_def)
  have same: "(sample_update False rs)\<lparr>upd_date_ranges := Some rs\<rparr> = sample_update False rs" for rs
    by (simp add: sample_update_def)
  show ?thesis
    using
      only_first_finding_is_surfaced[where env = sample_env and rs = overlapping_ranges
        and overlap = "''overlap with the second range''"
        and others = "[''overlap with the third range'', ''overlap with the third range'']"
        and orc = bookings_nowhere and today = 738886 and db = sample_db
        and pool_update = "sample_update False overlapping_ranges" and user_id = 1 and sid = 3
        and pool = "\<lparr>new_name = ''Gym'', new_remarks = None, new_date_ranges = overlapping_ranges\<rparr>"]
      only_first_finding_is_surfaced[where env = sample_env and rs = gapped_ranges
        and gap = "''gap before the second range''"
        and others = "[''gap before the third range'']"
        and orc = bookings_nowhere and today = 738886 and db = sample_db
        and pool_update = "sample_update False gapped_ranges" and user_id = 1 and sid = 3]
      only_first_finding_is_surfaced[where env = sample_env and rs = tiling_ranges]
      o g0 g t0 t ne
    by (simp add: same)
qed

end
